theory Spec2Isabelle
  imports Main "HOL-Library.Sublist"
begin

section \<open>The payment webhook handler of \<^verbatim>\<open>checkout/webhook_handler.py\<close>\<close>

text \<open>
  The handler \<^verbatim>\<open>StripeWH_Handler.handle_payment_intent_succeeded\<close> reads a payment
  intent, optionally updates the customer's profile, looks for the order five times, and
  creates the order with its line items when none was found. The ORM tables, the catalogue,
  the JSON parser and the mailer are not part of the file: the tables are lists in an
  explicit \<open>world\<close>, and what the libraries decide (parsing, rejecting a row, failing to
  send) is a parameter \<open>env\<close>. A failure of the database while a profile is read or
  saved, an order read or deleted, is not modelled.
\<close>

subsection \<open>Python values\<close>

text \<open>
  A text attribute is \<open>None\<close> when the attribute is missing or holds Python's \<open>None\<close>;
  every use in the handler is followed by \<^verbatim>\<open>or\<close>, which treats both alike.
\<close>

type_synonym pystr = "string option"

definition truthy :: "pystr \<Rightarrow> bool" where
  "truthy v = (case v of None \<Rightarrow> False | Some s \<Rightarrow> s \<noteq> [])"

text \<open>\<^verbatim>\<open>a or b\<close> on two optional texts.\<close>

definition py_or :: "pystr \<Rightarrow> pystr \<Rightarrow> pystr" where
  "py_or a b = (if truthy a then a else b)"

text \<open>\<^verbatim>\<open>a or ""\<close>.\<close>

definition or_empty :: "pystr \<Rightarrow> string" where
  "or_empty a = (case a of None \<Rightarrow> [] | Some s \<Rightarrow> s)"

text \<open>\<^verbatim>\<open>getattr(obj, name, "")\<close> where \<open>obj\<close> may be the empty dictionary.\<close>

definition getattr_text :: "'a option \<Rightarrow> ('a \<Rightarrow> pystr) \<Rightarrow> pystr" where
  "getattr_text obj field = (case obj of None \<Rightarrow> Some [] | Some x \<Rightarrow> field x)"

text \<open>
  The value of \<^verbatim>\<open>json.loads\<close>. A dictionary is the list of its items in iteration order,
  with distinct keys. A float keeps the text of its literal: the handler only passes it on.
\<close>

datatype json =
    JNull
  | JBool bool
  | JInt int
  | JFloat string
  | JStr string
  | JList "json list"
  | JObj "(string \<times> json) list"

text \<open>A metadata value that may be a string or a boolean (\<^verbatim>\<open>save_info\<close>).\<close>

datatype flag = FlagMissing | FlagStr string | FlagBool bool

datatype exn =
    MultipleObjectsReturned
  | AttributeError string
  | Raised string

fun str_exn :: "exn \<Rightarrow> string" where
  "str_exn MultipleObjectsReturned = ''get() returned more than one Order''"
| "str_exn (AttributeError m) = m"
| "str_exn (Raised m) = m"

subsection \<open>The event\<close>

type_synonym address = "(string \<times> pystr) list"

record shipping =
  sh_name :: pystr
  sh_phone :: pystr
  sh_address :: "address option"

record billing_details =
  bd_email :: pystr

record charge =
  ch_billing_details :: "billing_details option"
  ch_amount :: "int option"

record metadata =
  md_bag :: pystr
  md_save_info :: flag
  md_username :: pystr
  md_email :: pystr

text \<open>\<open>in_charges\<close> is \<^verbatim>\<open>intent.charges.data\<close>, empty when there are no charges.\<close>

record intent =
  in_id :: pystr
  in_metadata :: "metadata option"
  in_charges :: "charge list"
  in_billing_details :: "billing_details option"
  in_amount_received :: "int option"
  in_shipping :: "shipping option"

record event =
  ev_type :: string
  ev_object :: intent

subsection \<open>The stores\<close>

text \<open>
  \<open>grand_total\<close> is kept in hundredths: \<^verbatim>\<open>round(amount / 100, 2)\<close> of an integer amount
  denotes that many hundredths, so the float does not appear. \<open>user_profile\<close> is the
  foreign key, the username of the linked profile.
\<close>

record order =
  o_id :: nat
  full_name :: string
  user_profile :: "string option"
  email :: string
  phone_number :: string
  country :: string
  postcode :: string
  town_or_city :: string
  street_address1 :: string
  street_address2 :: string
  county :: string
  grand_total :: int
  original_bag :: string
  stripe_pid :: pystr

record line_item =
  li_order :: nat
  li_product :: nat
  li_quantity :: json
  li_product_size :: "string option"

record profile =
  user_email :: string
  default_phone_number :: pystr
  default_country :: pystr
  default_postcode :: pystr
  default_town_or_city :: pystr
  default_street_address1 :: pystr
  default_street_address2 :: pystr
  default_county :: pystr

record mail =
  mail_to :: string
  mail_order :: order

datatype action =
    SavedProfile string
  | GetOrder
  | Slept
  | CreatedOrder nat
  | CreatedLineItem nat
  | DeletedOrder nat
  | SentMail string
  | Printed string

text \<open>
  \<open>incoming\<close> is what other writers (the checkout view) commit while the handler sleeps:
  one batch of orders for each \<^verbatim>\<open>time.sleep(1)\<close>, in order. \<open>log\<close> records the handler's
  operations in the order it performs them.
\<close>

record world =
  orders :: "order list"
  line_items :: "line_item list"
  profiles :: "string \<rightharpoonup> profile"
  incoming :: "order list list"
  outbox :: "mail list"
  log :: "action list"

datatype 'a lookup = Found 'a | DoesNotExist | MultipleFound | LookupError exn

text \<open>
  What the libraries decide. \<open>json_loads\<close> is \<^verbatim>\<open>json.loads\<close>, \<open>None\<close> for a
  \<^verbatim>\<open>JSONDecodeError\<close>; \<open>product_get\<close> is \<^verbatim>\<open>Product.objects.get(id=item_id)\<close>;
  the three \<open>_error\<close> fields give the exception with which the store or the mailer
  refuses a row or a message, if it does.
\<close>

record env =
  json_loads :: "string \<Rightarrow> json option"
  product_get :: "string \<Rightarrow> nat lookup"
  order_create_error :: "order \<Rightarrow> exn option"
  lineitem_create_error :: "line_item \<Rightarrow> exn option"
  mail_error :: "order \<Rightarrow> string \<Rightarrow> exn option"

subsection \<open>Extraction of the event's fields (lines 50 to 77)\<close>

text \<open>
  \<^verbatim>\<open>for field, value in address.items(): if value == "": address[field] = None\<close>
\<close>

definition clean_address :: "address \<Rightarrow> address" where
  "clean_address a = map (\<lambda>(field, v). (field, if v = Some [] then None else v)) a"

text \<open>\<^verbatim>\<open>address.get(key, "")\<close>\<close>

definition address_get :: "address \<Rightarrow> string \<Rightarrow> pystr" where
  "address_get a key = (case map_of a key of None \<Rightarrow> Some [] | Some v \<Rightarrow> v)"

record locals =
  l_pid :: pystr
  l_bag :: string
  l_save_info :: bool
  l_username :: string
  l_email_to_send :: pystr
  l_billing_details :: "billing_details option"
  l_grand_total :: int
  l_shipping_details :: "shipping option"
  l_address :: address

definition metadata_get :: "metadata option \<Rightarrow> (metadata \<Rightarrow> pystr) \<Rightarrow> pystr" where
  "metadata_get m field = (case m of None \<Rightarrow> None | Some x \<Rightarrow> field x)"

definition save_info_of :: "metadata option \<Rightarrow> bool" where
  "save_info_of m =
     (case m of None \<Rightarrow> False
      | Some x \<Rightarrow> md_save_info x = FlagStr ''true'' \<or> md_save_info x = FlagBool True)"

definition amount_or_zero :: "int option \<Rightarrow> int" where
  "amount_or_zero a = (case a of None \<Rightarrow> 0 | Some n \<Rightarrow> n)"

text \<open>
  \<^verbatim>\<open>getattr(shipping_details, "address", {}) or {}\<close>, before the empty fields are
  cleaned.
\<close>

definition intent_address :: "intent \<Rightarrow> address" where
  "intent_address i =
     (case in_shipping i of
        None \<Rightarrow> []
      | Some s \<Rightarrow> (case sh_address s of None \<Rightarrow> [] | Some a \<Rightarrow> a))"

definition extract_locals :: "event \<Rightarrow> locals" where
  "extract_locals ev =
     (let i = ev_object ev;
          m = in_metadata i;
          shipping_details = in_shipping i;
          address = intent_address i
      in \<lparr> l_pid = in_id i,
           l_bag = (if truthy (metadata_get m md_bag) then or_empty (metadata_get m md_bag)
                    else ''{}''),
           l_save_info = save_info_of m,
           l_username = (if truthy (metadata_get m md_username)
                         then or_empty (metadata_get m md_username) else ''AnonymousUser''),
           l_email_to_send = py_or (metadata_get m md_email) None,
           l_billing_details = (case in_charges i of
                                  [] \<Rightarrow> in_billing_details i
                                | c # _ \<Rightarrow> ch_billing_details c),
           l_grand_total = (case in_charges i of
                              [] \<Rightarrow> amount_or_zero (in_amount_received i)
                            | c # _ \<Rightarrow> amount_or_zero (ch_amount c)),
           l_shipping_details = shipping_details,
           l_address = clean_address address \<rparr>)"

text \<open>The twelve values used both to look the order up and to create it.\<close>

definition ship_name :: "locals \<Rightarrow> string" where
  "ship_name l = or_empty (getattr_text (l_shipping_details l) sh_name)"

definition bill_email :: "locals \<Rightarrow> string" where
  "bill_email l = or_empty (getattr_text (l_billing_details l) bd_email)"

definition ship_phone :: "locals \<Rightarrow> string" where
  "ship_phone l = or_empty (getattr_text (l_shipping_details l) sh_phone)"

definition addr :: "locals \<Rightarrow> string \<Rightarrow> string" where
  "addr l key = or_empty (address_get (l_address l) key)"

subsection \<open>Profile update (lines 79 to 94)\<close>

definition update_profile :: "locals \<Rightarrow> profile \<Rightarrow> profile" where
  "update_profile l p =
     p \<lparr> default_phone_number :=
           py_or (getattr_text (l_shipping_details l) sh_phone) (default_phone_number p),
         default_country := py_or (address_get (l_address l) ''country'') (default_country p),
         default_postcode :=
           py_or (address_get (l_address l) ''postal_code'') (default_postcode p),
         default_town_or_city :=
           py_or (address_get (l_address l) ''city'') (default_town_or_city p),
         default_street_address1 :=
           py_or (address_get (l_address l) ''line1'') (default_street_address1 p),
         default_street_address2 :=
           py_or (address_get (l_address l) ''line2'') (default_street_address2 p),
         default_county := py_or (address_get (l_address l) ''state'') (default_county p) \<rparr>"

text \<open>
  \<^verbatim>\<open>UserProfile.objects.get(user__username=username)\<close> finds at most one profile, the
  username being the key. The result is the local variable \<^verbatim>\<open>profile\<close>, as the key of
  the profile it refers to.
\<close>

definition profile_step :: "locals \<Rightarrow> world \<Rightarrow> string option \<times> world" where
  "profile_step l w =
     (if l_username l \<noteq> ''AnonymousUser'' then
        (case profiles w (l_username l) of
           None \<Rightarrow> (None, w)
         | Some p \<Rightarrow>
             if l_save_info l then
               (Some (l_username l),
                w \<lparr> profiles := (profiles w)(l_username l \<mapsto> update_profile l p),
                    log := log w @ [SavedProfile (l_username l)] \<rparr>)
             else (Some (l_username l), w))
      else (None, w))"

subsection \<open>Looking the order up (lines 96 to 120)\<close>

text \<open>
  \<^verbatim>\<open>__iexact\<close> compares without regard to case; the model folds the ASCII letters, as
  SQLite's \<^verbatim>\<open>LIKE\<close> does.
\<close>

definition lower_char :: "char \<Rightarrow> char" where
  "lower_char c =
     (case map_of (zip ''ABCDEFGHIJKLMNOPQRSTUVWXYZ'' ''abcdefghijklmnopqrstuvwxyz'') c of
        None \<Rightarrow> c
      | Some d \<Rightarrow> d)"

definition iexact :: "string \<Rightarrow> string \<Rightarrow> bool" where
  "iexact stored given = (map lower_char stored = map lower_char given)"

definition matches :: "locals \<Rightarrow> order \<Rightarrow> bool" where
  "matches l ord =
     (iexact (full_name ord) (ship_name l) \<and>
      iexact (email ord) (bill_email l) \<and>
      iexact (phone_number ord) (ship_phone l) \<and>
      iexact (country ord) (addr l ''country'') \<and>
      iexact (postcode ord) (addr l ''postal_code'') \<and>
      iexact (town_or_city ord) (addr l ''city'') \<and>
      iexact (street_address1 ord) (addr l ''line1'') \<and>
      iexact (street_address2 ord) (addr l ''line2'') \<and>
      iexact (county ord) (addr l ''state'') \<and>
      grand_total ord = l_grand_total l \<and>
      original_bag ord = l_bag l \<and>
      stripe_pid ord = l_pid l)"

text \<open>
  \<^verbatim>\<open>Order.objects.get(...)\<close>: the row when exactly one matches, \<^verbatim>\<open>DoesNotExist\<close> when
  none does, \<^verbatim>\<open>MultipleObjectsReturned\<close> when several do.
\<close>

definition order_get :: "locals \<Rightarrow> order list \<Rightarrow> order lookup" where
  "order_get l tbl =
     (case filter (matches l) tbl of
        [] \<Rightarrow> DoesNotExist
      | [ord] \<Rightarrow> Found ord
      | _ \<Rightarrow> MultipleFound)"

text \<open>\<^verbatim>\<open>time.sleep(1)\<close>: the next batch of the other writers is committed.\<close>

definition sleep :: "world \<Rightarrow> world" where
  "sleep w =
     w \<lparr> orders := orders w @ (case incoming w of [] \<Rightarrow> [] | b # _ \<Rightarrow> b),
         incoming := tl (incoming w),
         log := log w @ [Slept] \<rparr>"

text \<open>
  The loop \<^verbatim>\<open>while attempt <= 5\<close>. Only \<^verbatim>\<open>Order.DoesNotExist\<close> is caught; the result is
  the exception that leaves the loop, or \<^verbatim>\<open>order\<close> (\<open>None\<close> when \<^verbatim>\<open>order_exists\<close> is
  false).
\<close>

function find_order :: "locals \<Rightarrow> nat \<Rightarrow> world \<Rightarrow> (exn + order option) \<times> world" where
  "find_order l attempt w =
     (if attempt \<le> 5 then
        (let w1 = w \<lparr> log := log w @ [GetOrder] \<rparr> in
         case order_get l (orders w1) of
           Found ord \<Rightarrow> (Inr (Some ord), w1)
         | DoesNotExist \<Rightarrow> find_order l (attempt + 1) (sleep w1)
         | MultipleFound \<Rightarrow> (Inl MultipleObjectsReturned, w1)
         | LookupError e \<Rightarrow> (Inl e, w1))
      else (Inr None, w))"
  by pat_completeness auto
termination
  by (relation "measure (\<lambda>(l, attempt, w). 6 - attempt)") auto

declare find_order.simps [simp del]

subsection \<open>The confirmation email (lines 20 to 39)\<close>

text \<open>
  \<^verbatim>\<open>order.email or email_to_send or getattr(order.user_profile.user, 'email', None)\<close>:
  the third operand is evaluated only when the first two are empty, and raises when the
  order has no profile.
\<close>

definition cust_email :: "world \<Rightarrow> order \<Rightarrow> pystr \<Rightarrow> exn + string" where
  "cust_email w ord email_to_send =
     (if email ord \<noteq> [] then Inr (email ord)
      else if truthy email_to_send then Inr (or_empty email_to_send)
      else (case user_profile ord of
              None \<Rightarrow> Inl (AttributeError ''user'')
            | Some u \<Rightarrow> (case profiles w u of
                          None \<Rightarrow> Inl (Raised ''UserProfile matching query does not exist.'')
                        | Some p \<Rightarrow> Inr (user_email p))))"

definition send_confirmation_email :: "env \<Rightarrow> order \<Rightarrow> pystr \<Rightarrow> world \<Rightarrow> world" where
  "send_confirmation_email e ord email_to_send w =
     (case cust_email w ord email_to_send of
        Inl x \<Rightarrow> w \<lparr> log := log w @ [Printed (str_exn x)] \<rparr>
      | Inr to \<Rightarrow>
          (case mail_error e ord to of
             Some x \<Rightarrow> w \<lparr> log := log w @ [Printed (str_exn x)] \<rparr>
           | None \<Rightarrow> w \<lparr> outbox := outbox w @ [\<lparr> mail_to = to, mail_order = ord \<rparr>],
                         log := log w @ [SentMail to] \<rparr>))"

subsection \<open>Creating the order (lines 129 to 179)\<close>

text \<open>The primary key of a new row is larger than every key in the table.\<close>

definition fresh_pk :: "order list \<Rightarrow> nat" where
  "fresh_pk tbl = Suc (fold max (map o_id tbl) 0)"

definition new_order :: "locals \<Rightarrow> string option \<Rightarrow> nat \<Rightarrow> order" where
  "new_order l prof pk =
     \<lparr> o_id = pk,
       full_name = ship_name l,
       user_profile = prof,
       email = bill_email l,
       phone_number = ship_phone l,
       country = addr l ''country'',
       postcode = addr l ''postal_code'',
       town_or_city = addr l ''city'',
       street_address1 = addr l ''line1'',
       street_address2 = addr l ''line2'',
       county = addr l ''state'',
       grand_total = l_grand_total l,
       original_bag = l_bag l,
       stripe_pid = l_pid l \<rparr>"

text \<open>\<^verbatim>\<open>Order.objects.create(...)\<close>\<close>

definition order_create :: "env \<Rightarrow> locals \<Rightarrow> string option \<Rightarrow> world \<Rightarrow> (exn + order) \<times> world" where
  "order_create e l prof w =
     (let ord = new_order l prof (fresh_pk (orders w)) in
      case order_create_error e ord of
        Some x \<Rightarrow> (Inl x, w)
      | None \<Rightarrow> (Inr ord, w \<lparr> orders := orders w @ [ord],
                               log := log w @ [CreatedOrder (o_id ord)] \<rparr>))"

text \<open>\<^verbatim>\<open>OrderLineItem.objects.create(...)\<close>\<close>

definition lineitem_create :: "env \<Rightarrow> line_item \<Rightarrow> world \<Rightarrow> exn option \<times> world" where
  "lineitem_create e li w =
     (case lineitem_create_error e li of
        Some x \<Rightarrow> (Some x, w)
      | None \<Rightarrow> (None, w \<lparr> line_items := line_items w @ [li],
                           log := log w @ [CreatedLineItem (li_product li)] \<rparr>))"

text \<open>
  \<^verbatim>\<open>for size, quantity in item_data.get("items_by_size", {}).items()\<close>: the loop stops at
  the first exception.
\<close>

fun create_sized :: "env \<Rightarrow> nat \<Rightarrow> nat \<Rightarrow> (string \<times> json) list \<Rightarrow> world \<Rightarrow> exn option \<times> world" where
  "create_sized e pk product [] w = (None, w)"
| "create_sized e pk product ((sz, quantity) # rest) w =
     (case lineitem_create e \<lparr> li_order = pk, li_product = product, li_quantity = quantity,
                               li_product_size = Some sz \<rparr> w of
        (Some x, w1) \<Rightarrow> (Some x, w1)
      | (None, w1) \<Rightarrow> create_sized e pk product rest w1)"

text \<open>\<^verbatim>\<open>d.get(key, default)\<close> on a dictionary of JSON values.\<close>

definition dict_get :: "(string \<times> json) list \<Rightarrow> string \<Rightarrow> json \<Rightarrow> json" where
  "dict_get d key dflt = (case map_of d key of None \<Rightarrow> dflt | Some v \<Rightarrow> v)"

text \<open>
  What is done with \<^verbatim>\<open>item_data\<close> once the product is there.
  \<^verbatim>\<open>isinstance(item_data, int)\<close> holds of integers and of booleans; \<^verbatim>\<open>.get\<close> and
  \<^verbatim>\<open>.items\<close> exist on dictionaries only.
\<close>

fun create_for :: "env \<Rightarrow> nat \<Rightarrow> nat \<Rightarrow> json \<Rightarrow> world \<Rightarrow> exn option \<times> world" where
  "create_for e pk product (JInt q) w =
     lineitem_create e \<lparr> li_order = pk, li_product = product, li_quantity = JInt q,
                         li_product_size = None \<rparr> w"
| "create_for e pk product (JBool b) w =
     lineitem_create e \<lparr> li_order = pk, li_product = product, li_quantity = JBool b,
                         li_product_size = None \<rparr> w"
| "create_for e pk product (JObj d) w =
     (case dict_get d ''items_by_size'' (JObj []) of
        JObj sizes \<Rightarrow> create_sized e pk product sizes w
      | _ \<Rightarrow> (Some (AttributeError ''items''), w))"
| "create_for e pk product _ w = (Some (AttributeError ''get''), w)"

text \<open>
  The body of \<^verbatim>\<open>for item_id, item_data in bag_data.items()\<close>: a missing product is
  caught and reported, any other exception leaves the loop.
\<close>

definition create_item :: "env \<Rightarrow> nat \<Rightarrow> string \<Rightarrow> json \<Rightarrow> world \<Rightarrow> exn option \<times> world" where
  "create_item e pk item_id item_data w =
     (case product_get e item_id of
        DoesNotExist \<Rightarrow>
          (None, w \<lparr> log := log w @
             [Printed (''Product not found for id '' @ item_id @ '', skipping line item.'')] \<rparr>)
      | MultipleFound \<Rightarrow> (Some MultipleObjectsReturned, w)
      | LookupError x \<Rightarrow> (Some x, w)
      | Found product \<Rightarrow> create_for e pk product item_data w)"

fun create_items :: "env \<Rightarrow> nat \<Rightarrow> (string \<times> json) list \<Rightarrow> world \<Rightarrow> exn option \<times> world" where
  "create_items e pk [] w = (None, w)"
| "create_items e pk ((item_id, item_data) # rest) w =
     (case create_item e pk item_id item_data w of
        (Some x, w1) \<Rightarrow> (Some x, w1)
      | (None, w1) \<Rightarrow> create_items e pk rest w1)"

text \<open>
  \<^verbatim>\<open>json.loads(bag)\<close> with its \<^verbatim>\<open>except json.JSONDecodeError\<close>, then the loop over
  \<^verbatim>\<open>bag_data.items()\<close>, which exists on a dictionary only.
\<close>

definition populate :: "env \<Rightarrow> locals \<Rightarrow> nat \<Rightarrow> world \<Rightarrow> exn option \<times> world" where
  "populate e l pk w =
     (case (case json_loads e (l_bag l) of None \<Rightarrow> JObj [] | Some v \<Rightarrow> v) of
        JObj items \<Rightarrow> create_items e pk items w
      | _ \<Rightarrow> (Some (AttributeError ''items''), w))"

text \<open>
  \<^verbatim>\<open>order.delete()\<close>: the row goes, and with it the line items that refer to it.
\<close>

definition order_delete :: "nat \<Rightarrow> world \<Rightarrow> world" where
  "order_delete pk w =
     w \<lparr> orders := filter (\<lambda>ord. o_id ord \<noteq> pk) (orders w),
         line_items := filter (\<lambda>li. li_order li \<noteq> pk) (line_items w),
         log := log w @ [DeletedOrder pk] \<rparr>"

text \<open>
  The \<^verbatim>\<open>try\<close> block of lines 130 to 179 with its \<^verbatim>\<open>except Exception\<close>: the order is
  deleted when it had been created.
\<close>

definition create_path :: "env \<Rightarrow> locals \<Rightarrow> string option \<Rightarrow> world \<Rightarrow> (exn + order) \<times> world" where
  "create_path e l prof w =
     (case order_create e l prof w of
        (Inl x, w1) \<Rightarrow> (Inl x, w1)
      | (Inr ord, w1) \<Rightarrow>
          (case populate e l (o_id ord) w1 of
             (Some x, w2) \<Rightarrow> (Inl x, order_delete (o_id ord) w2)
           | (None, w2) \<Rightarrow> (Inr ord, w2)))"

subsection \<open>The handler (lines 48 to 186)\<close>

record http_response =
  content :: string
  status :: nat

definition already_in_database :: "string \<Rightarrow> http_response" where
  "already_in_database ty =
     \<lparr> content = ''Webhook received: '' @ ty @ '' | SUCCESS: Verified order already in database'',
       status = 200 \<rparr>"

definition created_in_webhook :: "string \<Rightarrow> http_response" where
  "created_in_webhook ty =
     \<lparr> content = ''Webhook received: '' @ ty @ '' | SUCCESS: Created order in webhook'',
       status = 200 \<rparr>"

definition error_creating :: "string \<Rightarrow> exn \<Rightarrow> http_response" where
  "error_creating ty x =
     \<lparr> content = ''Webhook received: '' @ ty @ '' | ERROR creating order: '' @ str_exn x,
       status = 500 \<rparr>"

text \<open>
  The result is the response, or the exception that the handler does not catch. The
  existing order's email is sent without the event's address (line 123), the new order's
  with it (line 181).
\<close>

definition handle_payment_intent_succeeded ::
  "env \<Rightarrow> event \<Rightarrow> world \<Rightarrow> (exn + http_response) \<times> world" where
  "handle_payment_intent_succeeded e ev w =
     (let l = extract_locals ev in
      case profile_step l w of
        (prof, w1) \<Rightarrow>
          (case find_order l 1 w1 of
             (Inl x, w2) \<Rightarrow> (Inl x, w2)
           | (Inr (Some ord), w2) \<Rightarrow>
               (Inr (already_in_database (ev_type ev)),
                send_confirmation_email e ord None w2)
           | (Inr None, w2) \<Rightarrow>
               (case create_path e l prof w2 of
                  (Inl x, w3) \<Rightarrow> (Inr (error_creating (ev_type ev) x), w3)
                | (Inr ord, w3) \<Rightarrow>
                    (Inr (created_in_webhook (ev_type ev)),
                     send_confirmation_email e ord (l_email_to_send l) w3))))"

text \<open>\<^verbatim>\<open>handle_event\<close> and \<^verbatim>\<open>handle_payment_intent_payment_failed\<close> only acknowledge.\<close>

definition handle_event :: "event \<Rightarrow> http_response" where
  "handle_event ev = \<lparr> content = ''Unhandled webhook received: '' @ ev_type ev, status = 200 \<rparr>"

definition handle_payment_intent_payment_failed :: "event \<Rightarrow> http_response" where
  "handle_payment_intent_payment_failed ev =
     \<lparr> content = ''Webhook received: '' @ ev_type ev, status = 200 \<rparr>"

subsection \<open>Notions used to state the properties\<close>

text \<open>The order table as the handler sees it after \<open>k\<close> sleeps.\<close>

definition visible :: "world \<Rightarrow> nat \<Rightarrow> order list" where
  "visible w k = orders w @ concat (take k (incoming w))"

text \<open>The world after \<open>n\<close> lookups that found nothing, each followed by its sleep.\<close>

definition after_misses :: "nat \<Rightarrow> world \<Rightarrow> world" where
  "after_misses n w =
     w \<lparr> orders := visible w n, incoming := drop n (incoming w),
         log := log w @ concat (replicate n [GetOrder, Slept]) \<rparr>"

text \<open>The snapshot without the entries whose product does not exist.\<close>

definition skip_missing :: "env \<Rightarrow> (string \<times> json) list \<Rightarrow> (string \<times> json) list" where
  "skip_missing e items =
     filter (\<lambda>(item_id, item_data). product_get e item_id \<noteq> DoesNotExist) items"

text \<open>The first \<open>n\<close> lookups of the loop find nothing.\<close>

definition misses :: "event \<Rightarrow> world \<Rightarrow> nat \<Rightarrow> bool" where
  "misses ev w n =
     list_all (\<lambda>j. order_get (extract_locals ev) (visible w j) = DoesNotExist) [0..<n]"

text \<open>The order that the handler creates when the five lookups have found nothing.\<close>

definition created_order :: "event \<Rightarrow> world \<Rightarrow> order" where
  "created_order ev w =
     new_order (extract_locals ev) (fst (profile_step (extract_locals ev) w))
       (fresh_pk (visible w 5))"

text \<open>
  The exception, if any, with which the store refuses that order or with which the
  population of its line items stops.
\<close>

definition creation_error :: "env \<Rightarrow> event \<Rightarrow> world \<Rightarrow> exn option" where
  "creation_error e ev w =
     (case order_create_error e (created_order ev w) of
        Some x \<Rightarrow> Some x
      | None \<Rightarrow> fst (populate e (extract_locals ev) (fresh_pk (visible w 5)) w))"

text \<open>The opt-in update of the event is for the profile of \<open>u\<close>.\<close>

definition opt_in :: "event \<Rightarrow> string \<Rightarrow> bool" where
  "opt_in ev u =
     (u = l_username (extract_locals ev) \<and> u \<noteq> ''AnonymousUser'' \<and> l_save_info (extract_locals ev))"

text \<open>
  The value that the event carries for a contact field, as it is received: the phone of
  the shipping details, or a field of their address.
\<close>

definition supplied :: "event \<Rightarrow> string \<Rightarrow> pystr" where
  "supplied ev key =
     (if key = ''phone'' then getattr_text (in_shipping (ev_object ev)) sh_phone
      else address_get (intent_address (ev_object ev)) key)"

text \<open>
  The two shapes that the specification gives to the value of a snapshot entry, a plain
  quantity or a mapping from size to quantity, and the JSON value that carries each.
\<close>

datatype entry = Plain int | Sized "(string \<times> json) list"

fun entry_json :: "entry \<Rightarrow> json" where
  "entry_json (Plain q) = JInt q"
| "entry_json (Sized sizes) = JObj [(''items_by_size'', JObj sizes)]"

text \<open>
  Following the specification: a plain quantity gives one line item with that quantity
  and no size, a per-size mapping one line item for each pair of a size and a quantity.
\<close>

fun spec_line_items :: "nat \<Rightarrow> nat \<Rightarrow> entry \<Rightarrow> line_item list" where
  "spec_line_items pk product (Plain q) =
     [\<lparr> li_order = pk, li_product = product, li_quantity = JInt q, li_product_size = None \<rparr>]"
| "spec_line_items pk product (Sized sizes) =
     map (\<lambda>(sz, q). \<lparr> li_order = pk, li_product = product, li_quantity = q,
                       li_product_size = Some sz \<rparr>) sizes"

subsection \<open>An example shop\<close>

text \<open>
  A catalogue with the single product 12, a parser that knows the snapshots below, stores
  and a mailer that accept everything; a customer \<open>ann\<close> with her event, her order as
  the checkout view stores it, and her profile.
\<close>

definition bag_plain :: string where
  \<open>bag_plain = ''{"12": 3}''\<close>

definition bag_sized :: string where
  \<open>bag_sized = ''{"12": {"items_by_size": {"M": 2, "L": 1}}}''\<close>

definition bag_unknown :: string where
  \<open>bag_unknown = ''{"99": 1}''\<close>

definition shop_env :: env where
  "shop_env =
     \<lparr> json_loads = map_of
         [(''{}'', JObj []),
          (bag_plain, JObj [(''12'', JInt 3)]),
          (bag_sized,
           JObj [(''12'', JObj [(''items_by_size'', JObj [(''M'', JInt 2), (''L'', JInt 1)])])]),
          (bag_unknown, JObj [(''99'', JInt 1)]),
          (''[]'', JList [])],
       product_get = (\<lambda>item_id. if item_id = ''12'' then Found 12 else DoesNotExist),
       order_create_error = (\<lambda>ord. None),
       lineitem_create_error = (\<lambda>li. None),
       mail_error = (\<lambda>ord to. None) \<rparr>"

definition ann_shipping :: shipping where
  "ann_shipping =
     \<lparr> sh_name = Some ''Ann Lee'', sh_phone = Some ''555'',
       sh_address = Some [(''city'', Some ''Leeds''), (''country'', Some ''GB''),
                          (''line1'', Some ''1 Mill Rd''), (''line2'', None),
                          (''postal_code'', Some ''''), (''state'', Some '''')] \<rparr>"

definition ann_event :: "string \<Rightarrow> event" where
  "ann_event bag =
     \<lparr> ev_type = ''payment_intent.succeeded'',
       ev_object =
         \<lparr> in_id = Some ''pi_1'',
           in_metadata = Some \<lparr> md_bag = Some bag, md_save_info = FlagStr ''true'',
                                md_username = Some ''ann'', md_email = Some ''ann@mail.example'' \<rparr>,
           in_charges = [\<lparr> ch_billing_details = Some \<lparr> bd_email = Some ''ann@shop.example'' \<rparr>,
                           ch_amount = Some 4999 \<rparr>],
           in_billing_details = None,
           in_amount_received = None,
           in_shipping = Some ann_shipping \<rparr> \<rparr>"

definition ann_order :: "string \<Rightarrow> order" where
  "ann_order bag =
     \<lparr> o_id = 1, full_name = ''Ann Lee'', user_profile = Some ''ann'',
       email = ''ann@shop.example'', phone_number = ''555'', country = ''GB'', postcode = '''',
       town_or_city = ''Leeds'', street_address1 = ''1 Mill Rd'', street_address2 = '''',
       county = '''', grand_total = 4999, original_bag = bag, stripe_pid = Some ''pi_1'' \<rparr>"

definition ann_profile :: profile where
  "ann_profile =
     \<lparr> user_email = ''ann@account.example'', default_phone_number = Some ''111'',
       default_country = Some ''FR'', default_postcode = Some ''LS1 1AA'',
       default_town_or_city = None, default_street_address1 = Some ''2 Old Rd'',
       default_street_address2 = Some ''Flat 3'', default_county = Some ''Yorks'' \<rparr>"

definition empty_world :: world where
  "empty_world =
     \<lparr> orders = [], line_items = [], profiles = Map.empty, incoming = [], outbox = [],
       log = [] \<rparr>"

definition ann_world :: world where
  "ann_world = empty_world \<lparr> profiles := [''ann'' \<mapsto> ann_profile] \<rparr>"

text \<open>
  The same event when the billing details of the charge have no email: the only address
  for the confirmation that the event carries is the one in its metadata. Its order, as the
  handler itself creates it, has an empty email.
\<close>

definition unbilled_event :: event where
  "unbilled_event =
     \<lparr> ev_type = ''payment_intent.succeeded'',
       ev_object =
         \<lparr> in_id = Some ''pi_1'',
           in_metadata = Some \<lparr> md_bag = Some bag_plain, md_save_info = FlagStr ''true'',
                                md_username = Some ''ann'', md_email = Some ''ann@mail.example'' \<rparr>,
           in_charges = [\<lparr> ch_billing_details = Some \<lparr> bd_email = None \<rparr>,
                           ch_amount = Some 4999 \<rparr>],
           in_billing_details = None,
           in_amount_received = None,
           in_shipping = Some ann_shipping \<rparr> \<rparr>"

definition unbilled_order :: order where
  "unbilled_order = (ann_order bag_plain) \<lparr> email := '''' \<rparr>"

section \<open>Properties of the steps\<close>

subsection \<open>Line items\<close>

lemma lineitem_create_fst: "fst (lineitem_create e li w) = lineitem_create_error e li"
  by (simp add: lineitem_create_def split: option.splits)

lemma lineitem_create_frame:
  "orders (snd (lineitem_create e li w)) = orders w \<and>
   profiles (snd (lineitem_create e li w)) = profiles w \<and>
   incoming (snd (lineitem_create e li w)) = incoming w \<and>
   outbox (snd (lineitem_create e li w)) = outbox w \<and>
   prefix (log w) (log (snd (lineitem_create e li w)))"
  by (simp add: lineitem_create_def split: option.splits)

lemma lineitem_create_items:
  "line_items (snd (lineitem_create e li w)) =
     (if lineitem_create_error e li = None then line_items w @ [li] else line_items w)"
  by (simp add: lineitem_create_def split: option.splits)

lemma create_sized_frame:
  "orders (snd (create_sized e pk p sizes w)) = orders w \<and>
   profiles (snd (create_sized e pk p sizes w)) = profiles w \<and>
   incoming (snd (create_sized e pk p sizes w)) = incoming w \<and>
   outbox (snd (create_sized e pk p sizes w)) = outbox w \<and>
   prefix (log w) (log (snd (create_sized e pk p sizes w)))"
proof (induction sizes arbitrary: w)
  case Nil
  show ?case by simp
next
  case (Cons a sizes)
  obtain sz q where a: "a = (sz, q)" by (cases a)
  let ?li = "\<lparr>li_order = pk, li_product = p, li_quantity = q, li_product_size = Some sz\<rparr>"
  obtain r w1 where step: "lineitem_create e ?li w = (r, w1)" by (cases "lineitem_create e ?li w")
  from lineitem_create_frame [of e ?li w] step
  have f1: "orders w1 = orders w" "profiles w1 = profiles w" "incoming w1 = incoming w"
    "outbox w1 = outbox w" "prefix (log w) (log w1)" by simp_all
  show ?case
  proof (cases r)
    case None
    with a step Cons.IH [of w1] f1 show ?thesis
      by (auto intro: prefix_order.trans)
  next
    case (Some x)
    with a step f1 show ?thesis by simp
  qed
qed

lemma create_sized_cong:
  "line_items w = line_items w' \<Longrightarrow>
   fst (create_sized e pk p sizes w) = fst (create_sized e pk p sizes w') \<and>
   line_items (snd (create_sized e pk p sizes w)) = line_items (snd (create_sized e pk p sizes w'))"
proof (induction sizes arbitrary: w w')
  case Nil
  then show ?case by simp
next
  case (Cons a sizes)
  obtain sz q where a: "a = (sz, q)" by (cases a)
  let ?li = "\<lparr>li_order = pk, li_product = p, li_quantity = q, li_product_size = Some sz\<rparr>"
  show ?case
  proof (cases "lineitem_create_error e ?li")
    case None
    have "line_items (w\<lparr>line_items := line_items w @ [?li], log := log w @ [CreatedLineItem p]\<rparr>) =
          line_items (w'\<lparr>line_items := line_items w' @ [?li], log := log w' @ [CreatedLineItem p]\<rparr>)"
      using Cons.prems by simp
    from Cons.IH [OF this] a None show ?thesis
      by (simp add: lineitem_create_def)
  next
    case (Some x)
    with a Cons.prems show ?thesis by (simp add: lineitem_create_def)
  qed
qed

lemma create_sized_all:
  "\<forall>(sz, q) \<in> set sizes. lineitem_create_error e
      \<lparr>li_order = pk, li_product = p, li_quantity = q, li_product_size = Some sz\<rparr> = None \<Longrightarrow>
   fst (create_sized e pk p sizes w) = None \<and>
   line_items (snd (create_sized e pk p sizes w)) =
     line_items w @ map (\<lambda>(sz, q). \<lparr>li_order = pk, li_product = p, li_quantity = q,
                                      li_product_size = Some sz\<rparr>) sizes"
proof (induction sizes arbitrary: w)
  case Nil
  show ?case by simp
next
  case (Cons a sizes)
  obtain sz q where a: "a = (sz, q)" by (cases a)
  let ?li = "\<lparr>li_order = pk, li_product = p, li_quantity = q, li_product_size = Some sz\<rparr>"
  from Cons.prems a have ok: "lineitem_create_error e ?li = None" by simp
  from Cons.prems have rest: "\<forall>(sz, q) \<in> set sizes. lineitem_create_error e
      \<lparr>li_order = pk, li_product = p, li_quantity = q, li_product_size = Some sz\<rparr> = None" by simp
  from Cons.IH [OF rest] a ok show ?case
    by (simp add: lineitem_create_def)
qed

lemma create_for_frame:
  "orders (snd (create_for e pk p v w)) = orders w \<and>
   profiles (snd (create_for e pk p v w)) = profiles w \<and>
   incoming (snd (create_for e pk p v w)) = incoming w \<and>
   outbox (snd (create_for e pk p v w)) = outbox w \<and>
   prefix (log w) (log (snd (create_for e pk p v w)))"
proof (cases v)
  case (JObj d)
  show ?thesis
  proof (cases "dict_get d ''items_by_size'' (JObj [])")
    case (JObj sizes)
    with \<open>v = JObj d\<close> show ?thesis by (simp add: create_sized_frame)
  qed (simp_all add: \<open>v = JObj d\<close>)
qed (simp_all add: lineitem_create_frame)

lemma create_for_cong:
  assumes "line_items w = line_items w'"
  shows "fst (create_for e pk p v w) = fst (create_for e pk p v w') \<and>
   line_items (snd (create_for e pk p v w)) = line_items (snd (create_for e pk p v w'))"
proof (cases v)
  case (JObj d)
  show ?thesis
  proof (cases "dict_get d ''items_by_size'' (JObj [])")
    case (JObj sizes)
    with \<open>v = JObj d\<close> create_sized_cong [OF assms] show ?thesis by simp
  qed (simp_all add: \<open>v = JObj d\<close> assms)
qed (simp_all add: lineitem_create_fst lineitem_create_items assms)

lemma create_item_frame:
  "orders (snd (create_item e pk k v w)) = orders w \<and>
   profiles (snd (create_item e pk k v w)) = profiles w \<and>
   incoming (snd (create_item e pk k v w)) = incoming w \<and>
   outbox (snd (create_item e pk k v w)) = outbox w \<and>
   prefix (log w) (log (snd (create_item e pk k v w)))"
proof (cases "product_get e k")
  case (Found p)
  then show ?thesis by (simp add: create_item_def create_for_frame)
qed (simp_all add: create_item_def)

lemma create_item_cong:
  assumes "line_items w = line_items w'"
  shows "fst (create_item e pk k v w) = fst (create_item e pk k v w') \<and>
   line_items (snd (create_item e pk k v w)) = line_items (snd (create_item e pk k v w'))"
proof (cases "product_get e k")
  case (Found p)
  with create_for_cong [OF assms] show ?thesis by (simp add: create_item_def)
qed (simp_all add: create_item_def assms)

lemma create_item_missing:
  "product_get e k = DoesNotExist \<Longrightarrow>
   fst (create_item e pk k v w) = None \<and> line_items (snd (create_item e pk k v w)) = line_items w"
  by (simp add: create_item_def)

lemma create_items_frame:
  "orders (snd (create_items e pk items w)) = orders w \<and>
   profiles (snd (create_items e pk items w)) = profiles w \<and>
   incoming (snd (create_items e pk items w)) = incoming w \<and>
   outbox (snd (create_items e pk items w)) = outbox w \<and>
   prefix (log w) (log (snd (create_items e pk items w)))"
proof (induction items arbitrary: w)
  case Nil
  show ?case by simp
next
  case (Cons a items)
  obtain k v where a: "a = (k, v)" by (cases a)
  obtain r w1 where step: "create_item e pk k v w = (r, w1)" by (cases "create_item e pk k v w")
  from create_item_frame [of e pk k v w] step
  have f1: "orders w1 = orders w" "profiles w1 = profiles w" "incoming w1 = incoming w"
    "outbox w1 = outbox w" "prefix (log w) (log w1)" by simp_all
  show ?case
  proof (cases r)
    case None
    from Cons.IH [of w1] have "prefix (log w1) (log (snd (create_items e pk items w1)))" by simp
    with f1 have "prefix (log w) (log (snd (create_items e pk items w1)))"
      by (blast intro: prefix_order.trans)
    with None a step Cons.IH [of w1] f1 show ?thesis by simp
  next
    case (Some x)
    with a step f1 show ?thesis by simp
  qed
qed

lemma create_items_cong:
  "line_items w = line_items w' \<Longrightarrow>
   fst (create_items e pk items w) = fst (create_items e pk items w') \<and>
   line_items (snd (create_items e pk items w)) = line_items (snd (create_items e pk items w'))"
proof (induction items arbitrary: w w')
  case Nil
  then show ?case by simp
next
  case (Cons a items)
  obtain k v where a: "a = (k, v)" by (cases a)
  obtain r w1 where s1: "create_item e pk k v w = (r, w1)" by (cases "create_item e pk k v w")
  obtain w1' where s2: "create_item e pk k v w' = (r, w1')" "line_items w1 = line_items w1'"
    using create_item_cong [OF Cons.prems, of e pk k v] s1
    by (cases "create_item e pk k v w'") simp
  show ?case
  proof (cases r)
    case None
    with a s1 s2 Cons.IH [OF s2(2)] show ?thesis by simp
  next
    case (Some x)
    with a s1 s2 show ?thesis by simp
  qed
qed

lemma create_items_skip:
  "line_items w = line_items w' \<Longrightarrow>
   fst (create_items e pk items w) = fst (create_items e pk (skip_missing e items) w') \<and>
   line_items (snd (create_items e pk items w)) =
     line_items (snd (create_items e pk (skip_missing e items) w'))"
proof (induction items arbitrary: w w')
  case Nil
  then show ?case by (simp add: skip_missing_def)
next
  case (Cons a items)
  obtain k v where a: "a = (k, v)" by (cases a)
  show ?case
  proof (cases "product_get e k = DoesNotExist")
    case True
    obtain w1 where s1: "create_item e pk k v w = (None, w1)" "line_items w1 = line_items w"
      using create_item_missing [OF True, of pk v w] by (cases "create_item e pk k v w") simp
    from s1 Cons.prems have "line_items w1 = line_items w'" by simp
    from Cons.IH [OF this] a True s1 show ?thesis by (simp add: skip_missing_def)
  next
    case False
    obtain r w1 where s1: "create_item e pk k v w = (r, w1)" by (cases "create_item e pk k v w")
    obtain w1' where s2: "create_item e pk k v w' = (r, w1')" "line_items w1 = line_items w1'"
      using create_item_cong [OF Cons.prems, of e pk k v] s1
      by (cases "create_item e pk k v w'") simp
    show ?thesis
    proof (cases r)
      case None
      with a s1 s2 False Cons.IH [OF s2(2)] show ?thesis by (simp add: skip_missing_def)
    next
      case (Some x)
      with a s1 s2 False show ?thesis by (simp add: skip_missing_def)
    qed
  qed
qed

subsection \<open>Creating and deleting the order\<close>

lemma populate_frame:
  "orders (snd (populate e l pk w)) = orders w \<and>
   profiles (snd (populate e l pk w)) = profiles w \<and>
   incoming (snd (populate e l pk w)) = incoming w \<and>
   outbox (snd (populate e l pk w)) = outbox w \<and>
   prefix (log w) (log (snd (populate e l pk w)))"
proof (cases "case json_loads e (l_bag l) of None \<Rightarrow> JObj [] | Some v \<Rightarrow> v")
  case (JObj items)
  then show ?thesis by (simp add: populate_def create_items_frame)
qed (simp_all add: populate_def)

lemma populate_cong:
  assumes "line_items w = line_items w'"
  shows "fst (populate e l pk w) = fst (populate e l pk w') \<and>
   line_items (snd (populate e l pk w)) = line_items (snd (populate e l pk w'))"
proof (cases "case json_loads e (l_bag l) of None \<Rightarrow> JObj [] | Some v \<Rightarrow> v")
  case (JObj items)
  with create_items_cong [OF assms] show ?thesis by (simp add: populate_def)
qed (simp_all add: populate_def assms)

lemma fold_max_ge: "(a::nat) \<le> fold max xs a"
proof (induction xs arbitrary: a)
  case Nil
  show ?case by simp
next
  case (Cons x xs)
  have "a \<le> max x a" by simp
  also have "\<dots> \<le> fold max xs (max x a)" by (rule Cons.IH)
  finally show ?case by simp
qed

lemma fold_max_mem: "(x::nat) \<in> set xs \<Longrightarrow> x \<le> fold max xs a"
proof (induction xs arbitrary: a)
  case Nil
  then show ?case by simp
next
  case (Cons y xs)
  show ?case
  proof (cases "x = y")
    case True
    have "x \<le> max y a" using True by simp
    also have "\<dots> \<le> fold max xs (max y a)" by (rule fold_max_ge)
    finally show ?thesis by simp
  next
    case False
    with Cons.prems have "x \<in> set xs" by simp
    from Cons.IH [OF this] show ?thesis by simp
  qed
qed

lemma fresh_pk_fresh: "ord \<in> set tbl \<Longrightarrow> o_id ord < fresh_pk tbl"
proof -
  assume "ord \<in> set tbl"
  then have "o_id ord \<in> set (map o_id tbl)" by simp
  from fold_max_mem [OF this] show ?thesis by (simp add: fresh_pk_def less_Suc_eq_le)
qed

lemma filter_fresh: "filter (\<lambda>ord. o_id ord \<noteq> fresh_pk tbl) tbl = tbl"
proof -
  have "\<forall>ord \<in> set tbl. o_id ord \<noteq> fresh_pk tbl"
    using fresh_pk_fresh by fastforce
  then show ?thesis by (simp add: filter_id_conv)
qed

lemma new_order_id: "o_id (new_order l prof pk) = pk"
  by (simp add: new_order_def)

lemma create_path_rejected:
  "order_create_error e (new_order l prof (fresh_pk (orders w))) = Some x \<Longrightarrow>
   create_path e l prof w = (Inl x, w)"
  by (simp add: create_path_def order_create_def Let_def)

lemma create_path_raised:
  assumes ok: "order_create_error e (new_order l prof (fresh_pk (orders w))) = None"
    and bad: "fst (populate e l (fresh_pk (orders w)) w) = Some x"
  shows "fst (create_path e l prof w) = Inl x \<and>
         orders (snd (create_path e l prof w)) = orders w \<and>
         profiles (snd (create_path e l prof w)) = profiles w \<and>
         incoming (snd (create_path e l prof w)) = incoming w \<and>
         outbox (snd (create_path e l prof w)) = outbox w \<and>
         last (log (snd (create_path e l prof w))) = DeletedOrder (fresh_pk (orders w)) \<and>
         CreatedOrder (fresh_pk (orders w)) \<in> set (log (snd (create_path e l prof w)))"
proof -
  let ?pk = "fresh_pk (orders w)"
  let ?ord = "new_order l prof ?pk"
  let ?w1 = "w\<lparr>orders := orders w @ [?ord], log := log w @ [CreatedOrder ?pk]\<rparr>"
  obtain r w2 where pop: "populate e l ?pk ?w1 = (r, w2)" by (cases "populate e l ?pk ?w1")
  have "line_items w = line_items ?w1" by simp
  from populate_cong [OF this, of e l ?pk] pop bad have r: "r = Some x" by simp
  from populate_frame [of e l ?pk ?w1] pop
  have fr: "orders w2 = orders w @ [?ord]" "profiles w2 = profiles w" "incoming w2 = incoming w"
    "outbox w2 = outbox w" "prefix (log ?w1) (log w2)" by simp_all
  from fr(5) have "set (log ?w1) \<subseteq> set (log w2)" by (rule set_mono_prefix)
  then have made: "CreatedOrder ?pk \<in> set (log w2)" by simp
  have cp: "create_path e l prof w = (Inl x, order_delete ?pk w2)"
    using ok pop r by (simp add: create_path_def order_create_def new_order_id Let_def)
  show ?thesis
    using fr(1-4) made by (simp add: cp order_delete_def filter_fresh new_order_id)
qed

lemma create_path_done:
  assumes ok: "order_create_error e (new_order l prof (fresh_pk (orders w))) = None"
    and good: "fst (populate e l (fresh_pk (orders w)) w) = None"
  shows "fst (create_path e l prof w) = Inr (new_order l prof (fresh_pk (orders w))) \<and>
         orders (snd (create_path e l prof w)) = orders w @ [new_order l prof (fresh_pk (orders w))] \<and>
         profiles (snd (create_path e l prof w)) = profiles w \<and>
         incoming (snd (create_path e l prof w)) = incoming w \<and>
         outbox (snd (create_path e l prof w)) = outbox w \<and>
         line_items (snd (create_path e l prof w)) =
           line_items (snd (populate e l (fresh_pk (orders w)) w))"
proof -
  let ?pk = "fresh_pk (orders w)"
  let ?ord = "new_order l prof ?pk"
  let ?w1 = "w\<lparr>orders := orders w @ [?ord], log := log w @ [CreatedOrder ?pk]\<rparr>"
  obtain r w2 where pop: "populate e l ?pk ?w1 = (r, w2)" by (cases "populate e l ?pk ?w1")
  have "line_items w = line_items ?w1" by simp
  from populate_cong [OF this, of e l ?pk] pop good
  have r: "r = None" and li: "line_items w2 = line_items (snd (populate e l ?pk w))" by simp_all
  from populate_frame [of e l ?pk ?w1] pop
  have fr: "orders w2 = orders w @ [?ord]" "profiles w2 = profiles w" "incoming w2 = incoming w"
    "outbox w2 = outbox w" by simp_all
  have cp: "create_path e l prof w = (Inr ?ord, w2)"
    using ok pop r by (simp add: create_path_def order_create_def new_order_id Let_def)
  show ?thesis
    using fr li by (simp add: cp)
qed

lemma create_path_frame:
  "profiles (snd (create_path e l prof w)) = profiles w \<and>
   incoming (snd (create_path e l prof w)) = incoming w \<and>
   outbox (snd (create_path e l prof w)) = outbox w \<and>
   prefix (log w) (log (snd (create_path e l prof w)))"
proof (cases "order_create_error e (new_order l prof (fresh_pk (orders w)))")
  case (Some x)
  then show ?thesis by (simp add: create_path_rejected)
next
  case None
  let ?pk = "fresh_pk (orders w)"
  let ?ord = "new_order l prof ?pk"
  let ?w1 = "w\<lparr>orders := orders w @ [?ord], log := log w @ [CreatedOrder ?pk]\<rparr>"
  obtain r w2 where pop: "populate e l ?pk ?w1 = (r, w2)" by (cases "populate e l ?pk ?w1")
  from populate_frame [of e l ?pk ?w1] pop
  have fr: "profiles w2 = profiles w" "incoming w2 = incoming w"
    "outbox w2 = outbox w" "prefix (log ?w1) (log w2)" by simp_all
  have "prefix (log w) (log ?w1)" by simp
  from this fr(4) have pw2: "prefix (log w) (log w2)" by (rule prefix_order.trans)
  then have pw3: "prefix (log w) (log w2 @ [DeletedOrder ?pk])" by (rule prefix_prefix)
  show ?thesis
    using None pop fr pw2 pw3
    by (cases r) (simp_all add: create_path_def order_create_def new_order_id order_delete_def Let_def)
qed

subsection \<open>Mail and profile\<close>

lemma send_frame:
  "orders (send_confirmation_email e ord m w) = orders w \<and>
   line_items (send_confirmation_email e ord m w) = line_items w \<and>
   profiles (send_confirmation_email e ord m w) = profiles w \<and>
   incoming (send_confirmation_email e ord m w) = incoming w \<and>
   prefix (log w) (log (send_confirmation_email e ord m w))"
  by (simp add: send_confirmation_email_def split: sum.splits option.splits)

lemma profile_step_frame:
  "orders (snd (profile_step l w)) = orders w \<and>
   line_items (snd (profile_step l w)) = line_items w \<and>
   incoming (snd (profile_step l w)) = incoming w \<and>
   outbox (snd (profile_step l w)) = outbox w"
  by (simp add: profile_step_def split: option.splits)

lemma visible_profile_step: "visible (snd (profile_step l w)) k = visible w k"
  by (simp add: visible_def profile_step_frame)

subsection \<open>The lookup loop\<close>

lemma visible_0: "visible w 0 = orders w"
  by (simp add: visible_def)

lemma visible_sleep: "visible (sleep (w\<lparr>log := lg\<rparr>)) j = visible w (Suc j)"
  by (cases "incoming w") (simp_all add: visible_def sleep_def)

lemma after_misses_0: "after_misses 0 w = w"
  by (simp add: after_misses_def visible_def)

lemma after_misses_Suc:
  "after_misses n (sleep (w\<lparr>log := log w @ [GetOrder]\<rparr>)) = after_misses (Suc n) w"
  by (cases "incoming w") (simp_all add: after_misses_def visible_def sleep_def drop_Suc)

lemma order_get_none: "filter (matches l) tbl = [] \<Longrightarrow> order_get l tbl = DoesNotExist"
  by (simp add: order_get_def)

lemma order_get_one: "filter (matches l) tbl = [ord] \<Longrightarrow> order_get l tbl = Found ord"
  by (simp add: order_get_def)

lemma order_get_many:
  "filter (matches l) tbl = a # b # rest \<Longrightarrow> order_get l tbl = MultipleFound"
  by (simp add: order_get_def)

lemma find_order_stop: "5 < a \<Longrightarrow> find_order l a w = (Inr None, w)"
  by (simp add: find_order.simps)

lemma find_order_step:
  assumes "a \<le> 5" and "filter (matches l) (visible w 0) = []"
  shows "find_order l a w = find_order l (a + 1) (sleep (w\<lparr>log := log w @ [GetOrder]\<rparr>))"
proof -
  from assms(2) have "order_get l (orders (w\<lparr>log := log w @ [GetOrder]\<rparr>)) = DoesNotExist"
    by (simp add: order_get_none visible_0)
  with assms(1) show ?thesis
    by (subst find_order.simps) (simp add: Let_def)
qed

lemma find_order_all_miss:
  "a + n = 6 \<Longrightarrow> \<forall>j<n. filter (matches l) (visible w j) = [] \<Longrightarrow>
   find_order l a w = (Inr None, after_misses n w)"
proof (induction n arbitrary: a w)
  case 0
  then show ?case by (simp add: find_order_stop after_misses_0)
next
  case (Suc n)
  let ?w1 = "w\<lparr>log := log w @ [GetOrder]\<rparr>"
  from Suc.prems have a5: "a \<le> 5" by simp
  from Suc.prems have first: "filter (matches l) (visible w 0) = []" by blast
  have later: "\<forall>j<n. filter (matches l) (visible (sleep ?w1) j) = []"
    using Suc.prems by (simp add: visible_sleep)
  have "find_order l a w = find_order l (a + 1) (sleep ?w1)"
    using a5 first by (rule find_order_step)
  also have "\<dots> = (Inr None, after_misses n (sleep ?w1))"
    using Suc.prems later by (intro Suc.IH) simp_all
  finally show ?case by (simp add: after_misses_Suc)
qed

lemma find_order_hit:
  "a + k \<le> 5 \<Longrightarrow> \<forall>j<k. filter (matches l) (visible w j) = [] \<Longrightarrow>
   filter (matches l) (visible w k) = [ord] \<Longrightarrow>
   find_order l a w =
     (Inr (Some ord), (after_misses k w)\<lparr>log := log (after_misses k w) @ [GetOrder]\<rparr>)"
proof (induction k arbitrary: a w)
  case 0
  then have "order_get l (orders w) = Found ord" by (simp add: order_get_one visible_0)
  with 0 show ?case by (subst find_order.simps) (simp add: Let_def after_misses_0)
next
  case (Suc k)
  let ?w1 = "w\<lparr>log := log w @ [GetOrder]\<rparr>"
  from Suc.prems have a5: "a \<le> 5" by simp
  from Suc.prems have first: "filter (matches l) (visible w 0) = []" by blast
  have later: "\<forall>j<k. filter (matches l) (visible (sleep ?w1) j) = []"
    using Suc.prems by (simp add: visible_sleep)
  have hit: "filter (matches l) (visible (sleep ?w1) k) = [ord]"
    using Suc.prems by (simp add: visible_sleep)
  have "find_order l a w = find_order l (a + 1) (sleep ?w1)"
    using a5 first by (rule find_order_step)
  also have "\<dots> = (Inr (Some ord),
      (after_misses k (sleep ?w1))\<lparr>log := log (after_misses k (sleep ?w1)) @ [GetOrder]\<rparr>)"
    using Suc.prems later hit by (intro Suc.IH) simp_all
  finally show ?case by (simp add: after_misses_Suc)
qed

lemma find_order_many:
  "a + k \<le> 5 \<Longrightarrow> \<forall>j<k. filter (matches l) (visible w j) = [] \<Longrightarrow>
   filter (matches l) (visible w k) = x # y # rest \<Longrightarrow>
   find_order l a w =
     (Inl MultipleObjectsReturned,
      (after_misses k w)\<lparr>log := log (after_misses k w) @ [GetOrder]\<rparr>)"
proof (induction k arbitrary: a w)
  case 0
  then have "order_get l (orders w) = MultipleFound" by (simp add: order_get_many visible_0)
  with 0 show ?case by (subst find_order.simps) (simp add: Let_def after_misses_0)
next
  case (Suc k)
  let ?w1 = "w\<lparr>log := log w @ [GetOrder]\<rparr>"
  from Suc.prems have a5: "a \<le> 5" by simp
  from Suc.prems have first: "filter (matches l) (visible w 0) = []" by blast
  have later: "\<forall>j<k. filter (matches l) (visible (sleep ?w1) j) = []"
    using Suc.prems by (simp add: visible_sleep)
  have hit: "filter (matches l) (visible (sleep ?w1) k) = x # y # rest"
    using Suc.prems by (simp add: visible_sleep)
  have "find_order l a w = find_order l (a + 1) (sleep ?w1)"
    using a5 first by (rule find_order_step)
  also have "\<dots> = (Inl MultipleObjectsReturned,
      (after_misses k (sleep ?w1))\<lparr>log := log (after_misses k (sleep ?w1)) @ [GetOrder]\<rparr>)"
    using Suc.prems later hit by (intro Suc.IH) simp_all
  finally show ?case by (simp add: after_misses_Suc)
qed

lemma find_order_frame:
  "profiles (snd (find_order l a w)) = profiles w \<and>
   line_items (snd (find_order l a w)) = line_items w \<and>
   outbox (snd (find_order l a w)) = outbox w \<and>
   prefix (log w) (log (snd (find_order l a w)))"
proof (induction l a w rule: find_order.induct)
  case (1 l attempt w)
  let ?w1 = "w\<lparr>log := log w @ [GetOrder]\<rparr>"
  show ?case
  proof (cases "attempt \<le> 5")
    case False
    then show ?thesis by (simp add: find_order_stop)
  next
    case True
    show ?thesis
    proof (cases "order_get l (orders ?w1)")
      case DoesNotExist
      with True have eq: "find_order l attempt w = find_order l (attempt + 1) (sleep ?w1)"
        by (subst find_order.simps) (simp add: Let_def)
      from "1.IH" [OF True refl DoesNotExist]
      have ih: "profiles (snd (find_order l (attempt + 1) (sleep ?w1))) = profiles (sleep ?w1)"
        "line_items (snd (find_order l (attempt + 1) (sleep ?w1))) = line_items (sleep ?w1)"
        "outbox (snd (find_order l (attempt + 1) (sleep ?w1))) = outbox (sleep ?w1)"
        "prefix (log (sleep ?w1)) (log (snd (find_order l (attempt + 1) (sleep ?w1))))"
        by simp_all
      have "prefix (log w) (log (sleep ?w1))" by (simp add: sleep_def)
      from this ih(4) have "prefix (log w) (log (snd (find_order l (attempt + 1) (sleep ?w1))))"
        by (rule prefix_order.trans)
      with ih show ?thesis by (simp add: eq sleep_def)
    qed (use True in \<open>subst find_order.simps, simp add: Let_def\<close>)+
  qed
qed

lemma find_order_first_log:
  "a \<le> 5 \<Longrightarrow> prefix (log w @ [GetOrder]) (log (snd (find_order l a w)))"
proof -
  assume a: "a \<le> 5"
  let ?w1 = "w\<lparr>log := log w @ [GetOrder]\<rparr>"
  show ?thesis
  proof (cases "order_get l (orders ?w1)")
    case DoesNotExist
    with a have eq: "find_order l a w = find_order l (a + 1) (sleep ?w1)"
      by (subst find_order.simps) (simp add: Let_def)
    have "prefix (log w @ [GetOrder]) (log (sleep ?w1))" by (simp add: sleep_def)
    moreover have "prefix (log (sleep ?w1)) (log (snd (find_order l (a + 1) (sleep ?w1))))"
      using find_order_frame [of l "a + 1" "sleep ?w1"] by simp
    ultimately show ?thesis unfolding eq by (rule prefix_order.trans)
  qed (use a in \<open>subst find_order.simps, simp add: Let_def\<close>)+
qed

subsection \<open>The mailer plays no part in the creation\<close>

lemma lineitem_create_mail:
  "lineitem_create (e\<lparr>mail_error := f\<rparr>) li w = lineitem_create e li w"
  by (simp add: lineitem_create_def)

lemma create_sized_mail:
  "create_sized (e\<lparr>mail_error := f\<rparr>) pk p sizes w = create_sized e pk p sizes w"
  by (induction sizes arbitrary: w)
     (auto simp add: lineitem_create_mail split: prod.splits option.splits)

lemma create_for_mail:
  "create_for (e\<lparr>mail_error := f\<rparr>) pk p v w = create_for e pk p v w"
proof (cases v)
  case (JObj d)
  then show ?thesis
    by (cases "dict_get d ''items_by_size'' (JObj [])") (simp_all add: create_sized_mail)
qed (simp_all add: lineitem_create_mail)

lemma create_item_mail:
  "create_item (e\<lparr>mail_error := f\<rparr>) pk k v w = create_item e pk k v w"
  by (cases "product_get e k") (simp_all add: create_item_def create_for_mail)

lemma create_items_mail:
  "create_items (e\<lparr>mail_error := f\<rparr>) pk items w = create_items e pk items w"
  by (induction items arbitrary: w)
     (auto simp add: create_item_mail split: prod.splits option.splits)

lemma populate_mail:
  "populate (e\<lparr>mail_error := f\<rparr>) l pk w = populate e l pk w"
  by (cases "case json_loads e (l_bag l) of None \<Rightarrow> JObj [] | Some v \<Rightarrow> v")
     (simp_all add: populate_def create_items_mail)

lemma create_path_mail:
  "create_path (e\<lparr>mail_error := f\<rparr>) l prof w = create_path e l prof w"
  by (cases "order_create_error e (new_order l prof (fresh_pk (orders w)))")
     (simp_all add: create_path_def order_create_def populate_mail Let_def)

subsection \<open>Cleaning the address and updating the profile\<close>

lemma map_of_clean:
  "map_of (clean_address a) key =
        map_option (\<lambda>v. if v = Some [] then None else v) (map_of a key)"
proof (induction a)
  case Nil
  show ?case by (simp add: clean_address_def)
next
  case (Cons x a)
  obtain f v where x: "x = (f, v)" by (cases x)
  from Cons show ?case by (simp add: clean_address_def x)
qed

lemma address_get_clean:
  "address_get (clean_address a) key =
     (if address_get a key = Some [] then (if map_of a key = None then Some [] else None)
      else address_get a key)"
proof (cases "map_of a key")
  case None
  then show ?thesis by (simp add: address_get_def map_of_clean)
next
  case (Some v)
  then show ?thesis by (simp add: address_get_def map_of_clean)
qed

lemma py_or_clean:
  "py_or (address_get (clean_address a) key) old =
     (if truthy (address_get a key) then address_get a key else old)"
proof (cases "address_get a key")
  case None
  then show ?thesis by (simp add: address_get_clean py_or_def truthy_def)
next
  case (Some s)
  then show ?thesis
    by (cases "s = []") (simp_all add: address_get_clean py_or_def truthy_def)
qed

lemma extract_locals_address:
  "l_address (extract_locals ev) = clean_address (intent_address (ev_object ev))"
  "l_shipping_details (extract_locals ev) = in_shipping (ev_object ev)"
  by (simp_all add: extract_locals_def Let_def)

lemma update_profile_other:
  "user_email (update_profile l p) = user_email p"
  by (simp add: update_profile_def)

lemma update_profile_phone:
  "default_phone_number (update_profile (extract_locals ev) p) =
     (if truthy (supplied ev ''phone'') then supplied ev ''phone'' else default_phone_number p)"
  by (simp add: update_profile_def extract_locals_address(2) supplied_def py_or_def)

lemma supplied_address:
  "key \<noteq> ''phone'' \<Longrightarrow> supplied ev key = address_get (intent_address (ev_object ev)) key"
  by (simp add: supplied_def)

lemma update_profile_address:
  "default_country (update_profile (extract_locals ev) p) =
     (if truthy (supplied ev ''country'') then supplied ev ''country'' else default_country p)"
  "default_postcode (update_profile (extract_locals ev) p) =
     (if truthy (supplied ev ''postal_code'') then supplied ev ''postal_code''
      else default_postcode p)"
  "default_town_or_city (update_profile (extract_locals ev) p) =
     (if truthy (supplied ev ''city'') then supplied ev ''city'' else default_town_or_city p)"
  "default_street_address1 (update_profile (extract_locals ev) p) =
     (if truthy (supplied ev ''line1'') then supplied ev ''line1''
      else default_street_address1 p)"
  "default_street_address2 (update_profile (extract_locals ev) p) =
     (if truthy (supplied ev ''line2'') then supplied ev ''line2''
      else default_street_address2 p)"
  "default_county (update_profile (extract_locals ev) p) =
     (if truthy (supplied ev ''state'') then supplied ev ''state'' else default_county p)"
  unfolding update_profile_def extract_locals_address(1) py_or_clean
  by (simp_all add: supplied_address)

lemma profile_step_profiles:
  "profiles (snd (profile_step (extract_locals ev) w)) u =
     (if opt_in ev u then map_option (update_profile (extract_locals ev)) (profiles w u)
      else profiles w u)"
proof (cases "profiles w (l_username (extract_locals ev))")
  case None
  then show ?thesis by (auto simp add: profile_step_def opt_in_def)
next
  case (Some q)
  then show ?thesis by (auto simp add: profile_step_def opt_in_def)
qed

subsection \<open>The line items of a well-formed snapshot\<close>

lemma create_for_spec:
  assumes "\<forall>li \<in> set (spec_line_items pk p en). lineitem_create_error e li = None"
  shows "fst (create_for e pk p (entry_json en) w) = None \<and>
         line_items (snd (create_for e pk p (entry_json en) w)) =
           line_items w @ spec_line_items pk p en"
proof (cases en)
  case (Plain q)
  with assms show ?thesis by (simp add: lineitem_create_def)
next
  case (Sized sizes)
  from assms Sized have "\<forall>(sz, q) \<in> set sizes. lineitem_create_error e
      \<lparr>li_order = pk, li_product = p, li_quantity = q, li_product_size = Some sz\<rparr> = None"
    by fastforce
  from create_sized_all [OF this, of w] Sized show ?thesis
    by (simp add: dict_get_def)
qed

lemma create_items_spec:
  assumes "\<forall>(k, en) \<in> set entries. product_get e k = Found (product k)"
    and "\<forall>(k, en) \<in> set entries.
           \<forall>li \<in> set (spec_line_items pk (product k) en). lineitem_create_error e li = None"
  shows "fst (create_items e pk (map (\<lambda>(k, en). (k, entry_json en)) entries) w) = None \<and>
         line_items (snd (create_items e pk (map (\<lambda>(k, en). (k, entry_json en)) entries) w)) =
           line_items w @ concat (map (\<lambda>(k, en). spec_line_items pk (product k) en) entries)"
  using assms
proof (induction entries arbitrary: w)
  case Nil
  show ?case by simp
next
  case (Cons a entries)
  obtain k en where a: "a = (k, en)" by (cases a)
  from Cons.prems a have found: "product_get e k = Found (product k)"
    and acc: "\<forall>li \<in> set (spec_line_items pk (product k) en). lineitem_create_error e li = None"
    by simp_all
  from Cons.prems have rest1: "\<forall>(k, en) \<in> set entries. product_get e k = Found (product k)"
    and rest2: "\<forall>(k, en) \<in> set entries.
           \<forall>li \<in> set (spec_line_items pk (product k) en). lineitem_create_error e li = None"
    by simp_all
  obtain w1 where step: "create_item e pk k (entry_json en) w = (None, w1)"
    and li1: "line_items w1 = line_items w @ spec_line_items pk (product k) en"
    using create_for_spec [OF acc, of w] found
    by (cases "create_for e pk (product k) (entry_json en) w") (simp add: create_item_def)
  from Cons.IH [OF rest1 rest2, of w1] a step li1 show ?case
    by simp
qed

subsection \<open>The recipient of the confirmation\<close>

lemma send_outbox:
  "cust_email w ord m = Inr to \<Longrightarrow> mail_error e ord to = None \<Longrightarrow>
   outbox (send_confirmation_email e ord m w) = outbox w @ [\<lparr> mail_to = to, mail_order = ord \<rparr>]"
  by (simp add: send_confirmation_email_def)

subsection \<open>The handler along each path\<close>

lemma order_get_miss_iff: "order_get l tbl = DoesNotExist \<longleftrightarrow> filter (matches l) tbl = []"
proof (cases "filter (matches l) tbl")
  case Nil
  then show ?thesis by (simp add: order_get_def)
next
  case (Cons a rest)
  then show ?thesis by (cases rest) (simp_all add: order_get_def)
qed

lemma order_get_found_iff: "order_get l tbl = Found ord \<longleftrightarrow> filter (matches l) tbl = [ord]"
proof (cases "filter (matches l) tbl")
  case Nil
  then show ?thesis by (simp add: order_get_def)
next
  case (Cons a rest)
  then show ?thesis by (cases rest) (auto simp add: order_get_def)
qed

lemma misses_iff:
  "misses ev w n \<longleftrightarrow> (\<forall>j<n. filter (matches (extract_locals ev)) (visible w j) = [])"
  by (auto simp add: misses_def list_all_iff order_get_miss_iff)

lemma after_misses_fields:
  "orders (after_misses n w) = visible w n"
  "incoming (after_misses n w) = drop n (incoming w)"
  "line_items (after_misses n w) = line_items w"
  "profiles (after_misses n w) = profiles w"
  "outbox (after_misses n w) = outbox w"
  by (simp_all add: after_misses_def)

lemma handler_hit:
  assumes "k < 5" and "misses ev w k"
    and "order_get (extract_locals ev) (visible w k) = Found ord"
  shows "handle_payment_intent_succeeded e ev w =
     (Inr (already_in_database (ev_type ev)),
      send_confirmation_email e ord None
        ((after_misses k (snd (profile_step (extract_locals ev) w)))
           \<lparr>log := log (after_misses k (snd (profile_step (extract_locals ev) w))) @ [GetOrder]\<rparr>))"
proof -
  let ?l = "extract_locals ev"
  obtain prof w1 where ps: "profile_step ?l w = (prof, w1)" by (cases "profile_step ?l w")
  then have vis: "\<And>j. visible w1 j = visible w j"
    using visible_profile_step [of ?l w] by simp
  have "find_order ?l 1 w1 =
     (Inr (Some ord), (after_misses k w1)\<lparr>log := log (after_misses k w1) @ [GetOrder]\<rparr>)"
    using assms by (intro find_order_hit) (simp_all add: vis misses_iff order_get_found_iff)
  with ps show ?thesis
    by (simp add: handle_payment_intent_succeeded_def Let_def)
qed

lemma handler_many:
  assumes "k < 5" and "misses ev w k"
    and "order_get (extract_locals ev) (visible w k) = MultipleFound"
  shows "fst (handle_payment_intent_succeeded e ev w) = Inl MultipleObjectsReturned"
proof -
  let ?l = "extract_locals ev"
  obtain prof w1 where ps: "profile_step ?l w = (prof, w1)" by (cases "profile_step ?l w")
  then have vis: "\<And>j. visible w1 j = visible w j"
    using visible_profile_step [of ?l w] by simp
  from assms(3) obtain x y rest where many: "filter (matches ?l) (visible w k) = x # y # rest"
    by (cases "filter (matches ?l) (visible w k)" rule: remdups_adj.cases)
       (simp_all add: order_get_def)
  have "find_order ?l 1 w1 =
     (Inl MultipleObjectsReturned,
      (after_misses k w1)\<lparr>log := log (after_misses k w1) @ [GetOrder]\<rparr>)"
    using assms(1,2) many by (intro find_order_many) (simp_all add: vis misses_iff)
  with ps show ?thesis
    by (simp add: handle_payment_intent_succeeded_def Let_def)
qed

lemma handler_miss:
  assumes "misses ev w 5"
  shows "handle_payment_intent_succeeded e ev w =
     (case create_path e (extract_locals ev) (fst (profile_step (extract_locals ev) w))
             (after_misses 5 (snd (profile_step (extract_locals ev) w))) of
        (Inl x, w3) \<Rightarrow> (Inr (error_creating (ev_type ev) x), w3)
      | (Inr ord, w3) \<Rightarrow>
          (Inr (created_in_webhook (ev_type ev)),
           send_confirmation_email e ord (l_email_to_send (extract_locals ev)) w3))"
proof -
  let ?l = "extract_locals ev"
  obtain prof w1 where ps: "profile_step ?l w = (prof, w1)" by (cases "profile_step ?l w")
  then have vis: "\<And>j. visible w1 j = visible w j"
    using visible_profile_step [of ?l w] by simp
  have "find_order ?l 1 w1 = (Inr None, after_misses 5 w1)"
    using assms by (intro find_order_all_miss) (simp_all add: vis misses_iff)
  with ps show ?thesis
    by (simp add: handle_payment_intent_succeeded_def Let_def)
qed

text \<open>After five misses, when nothing is raised: the order, its line items, the mail.\<close>

lemma handler_created_eq:
  assumes "misses ev w 5" and "creation_error e ev w = None"
  shows "handle_payment_intent_succeeded e ev w =
           (Inr (created_in_webhook (ev_type ev)),
            send_confirmation_email e (created_order ev w) (l_email_to_send (extract_locals ev))
              (snd (create_path e (extract_locals ev) (fst (profile_step (extract_locals ev) w))
                     (after_misses 5 (snd (profile_step (extract_locals ev) w))))))"
    and "orders (snd (create_path e (extract_locals ev) (fst (profile_step (extract_locals ev) w))
                     (after_misses 5 (snd (profile_step (extract_locals ev) w))))) =
           visible w 5 @ [created_order ev w]"
    and "incoming (snd (create_path e (extract_locals ev)
                     (fst (profile_step (extract_locals ev) w))
                     (after_misses 5 (snd (profile_step (extract_locals ev) w))))) =
           drop 5 (incoming w)"
    and "line_items (snd (create_path e (extract_locals ev)
                     (fst (profile_step (extract_locals ev) w))
                     (after_misses 5 (snd (profile_step (extract_locals ev) w))))) =
           line_items (snd (populate e (extract_locals ev) (fresh_pk (visible w 5)) w))"
    and "profiles (snd (create_path e (extract_locals ev)
                     (fst (profile_step (extract_locals ev) w))
                     (after_misses 5 (snd (profile_step (extract_locals ev) w))))) =
           profiles (snd (profile_step (extract_locals ev) w))"
    and "outbox (snd (create_path e (extract_locals ev)
                     (fst (profile_step (extract_locals ev) w))
                     (after_misses 5 (snd (profile_step (extract_locals ev) w))))) =
           outbox w"
proof -
  let ?l = "extract_locals ev"
  let ?prof = "fst (profile_step ?l w)"
  let ?w2 = "after_misses 5 (snd (profile_step ?l w))"
  let ?pk = "fresh_pk (visible w 5)"
  have o2: "orders ?w2 = visible w 5"
    by (simp add: after_misses_fields visible_profile_step)
  have i2: "incoming ?w2 = drop 5 (incoming w)"
    by (simp add: after_misses_fields profile_step_frame)
  have l2: "line_items ?w2 = line_items w"
    by (simp add: after_misses_fields profile_step_frame)
  have p2: "profiles ?w2 = profiles (snd (profile_step ?l w))"
    by (simp add: after_misses_fields)
  have x2: "outbox ?w2 = outbox w"
    by (simp add: after_misses_fields profile_step_frame)
  from assms(2) have ok: "order_create_error e (new_order ?l ?prof (fresh_pk (orders ?w2))) = None"
    and good0: "fst (populate e ?l ?pk w) = None"
    by (simp_all add: creation_error_def created_order_def o2 split: option.splits)
  from populate_cong [OF l2, of e ?l ?pk] good0
  have good: "fst (populate e ?l (fresh_pk (orders ?w2)) ?w2) = None"
    and li: "line_items (snd (populate e ?l (fresh_pk (orders ?w2)) ?w2)) =
             line_items (snd (populate e ?l ?pk w))"
    by (simp_all add: o2)
  obtain r3 w3 where cp: "create_path e ?l ?prof ?w2 = (r3, w3)"
    by (cases "create_path e ?l ?prof ?w2")
  from create_path_done [OF ok good] cp o2 i2 li p2 x2
  have r3: "r3 = Inr (created_order ev w)"
    and o3: "orders w3 = visible w 5 @ [created_order ev w]"
    and i3: "incoming w3 = drop 5 (incoming w)"
    and l3: "line_items w3 = line_items (snd (populate e ?l ?pk w))"
    and p3: "profiles w3 = profiles (snd (profile_step ?l w))"
    and x3: "outbox w3 = outbox w"
    by (simp_all add: created_order_def)
  show "handle_payment_intent_succeeded e ev w =
           (Inr (created_in_webhook (ev_type ev)),
            send_confirmation_email e (created_order ev w) (l_email_to_send ?l)
              (snd (create_path e ?l ?prof ?w2)))"
    by (simp add: handler_miss [OF assms(1)] cp r3)
  show "orders (snd (create_path e ?l ?prof ?w2)) = visible w 5 @ [created_order ev w]"
    and "incoming (snd (create_path e ?l ?prof ?w2)) = drop 5 (incoming w)"
    and "line_items (snd (create_path e ?l ?prof ?w2)) = line_items (snd (populate e ?l ?pk w))"
    and "profiles (snd (create_path e ?l ?prof ?w2)) = profiles (snd (profile_step ?l w))"
    and "outbox (snd (create_path e ?l ?prof ?w2)) = outbox w"
    by (simp_all add: cp o3 i3 l3 p3 x3)
qed

lemma handler_created:
  assumes "misses ev w 5" and "creation_error e ev w = None"
  shows "fst (handle_payment_intent_succeeded e ev w) = Inr (created_in_webhook (ev_type ev))"
    and "orders (snd (handle_payment_intent_succeeded e ev w)) =
           visible w 5 @ [created_order ev w]"
    and "incoming (snd (handle_payment_intent_succeeded e ev w)) = drop 5 (incoming w)"
    and "line_items (snd (handle_payment_intent_succeeded e ev w)) =
           line_items (snd (populate e (extract_locals ev) (fresh_pk (visible w 5)) w))"
  by (simp_all add: handler_created_eq [OF assms] send_frame)

text \<open>After five misses, when the order is stored and a later step raises.\<close>

lemma handler_raised:
  assumes "misses ev w 5" and "order_create_error e (created_order ev w) = None"
    and "fst (populate e (extract_locals ev) (fresh_pk (visible w 5)) w) = Some x"
  shows "fst (handle_payment_intent_succeeded e ev w) = Inr (error_creating (ev_type ev) x)"
    and "orders (snd (handle_payment_intent_succeeded e ev w)) = visible w 5"
    and "outbox (snd (handle_payment_intent_succeeded e ev w)) = outbox w"
    and "last (log (snd (handle_payment_intent_succeeded e ev w))) =
           DeletedOrder (fresh_pk (visible w 5))"
    and "CreatedOrder (fresh_pk (visible w 5)) \<in>
           set (log (snd (handle_payment_intent_succeeded e ev w)))"
proof -
  let ?l = "extract_locals ev"
  let ?prof = "fst (profile_step ?l w)"
  let ?w2 = "after_misses 5 (snd (profile_step ?l w))"
  let ?pk = "fresh_pk (visible w 5)"
  have o2: "orders ?w2 = visible w 5"
    by (simp add: after_misses_fields visible_profile_step)
  have x2: "outbox ?w2 = outbox w"
    by (simp add: after_misses_fields profile_step_frame)
  have l2: "line_items ?w2 = line_items w"
    by (simp add: after_misses_fields profile_step_frame)
  from assms(2) have ok: "order_create_error e (new_order ?l ?prof (fresh_pk (orders ?w2))) = None"
    by (simp add: created_order_def o2)
  from populate_cong [OF l2, of e ?l ?pk] assms(3)
  have bad: "fst (populate e ?l (fresh_pk (orders ?w2)) ?w2) = Some x"
    by (simp add: o2)
  obtain r3 w3 where cp: "create_path e ?l ?prof ?w2 = (r3, w3)"
    by (cases "create_path e ?l ?prof ?w2")
  from create_path_raised [OF ok bad] cp o2 x2
  have r3: "r3 = Inl x" and o3: "orders w3 = visible w 5" and x3: "outbox w3 = outbox w"
    and g3: "last (log w3) = DeletedOrder ?pk"
    and m3: "CreatedOrder ?pk \<in> set (log w3)"
    by simp_all
  have h: "handle_payment_intent_succeeded e ev w = (Inr (error_creating (ev_type ev) x), w3)"
    by (simp add: handler_miss [OF assms(1)] cp r3)
  show "fst (handle_payment_intent_succeeded e ev w) = Inr (error_creating (ev_type ev) x)"
    and "orders (snd (handle_payment_intent_succeeded e ev w)) = visible w 5"
    and "outbox (snd (handle_payment_intent_succeeded e ev w)) = outbox w"
    and "last (log (snd (handle_payment_intent_succeeded e ev w))) = DeletedOrder ?pk"
    and "CreatedOrder ?pk \<in> set (log (snd (handle_payment_intent_succeeded e ev w)))"
    by (simp_all add: h o3 x3 g3 m3)
qed

text \<open>Whatever the path: the profiles are those of the profile step, which comes first.\<close>

lemma handler_frame:
  "profiles (snd (handle_payment_intent_succeeded e ev w)) =
     profiles (snd (profile_step (extract_locals ev) w))"
  "prefix (log (snd (profile_step (extract_locals ev) w)) @ [GetOrder])
     (log (snd (handle_payment_intent_succeeded e ev w)))"
proof -
  let ?l = "extract_locals ev"
  obtain prof w1 where ps: "profile_step ?l w = (prof, w1)" by (cases "profile_step ?l w")
  obtain r2 w2 where fo: "find_order ?l 1 w1 = (r2, w2)" by (cases "find_order ?l 1 w1")
  from find_order_frame [of ?l 1 w1] fo have p2: "profiles w2 = profiles w1" by simp
  from find_order_first_log [of 1 w1 ?l] fo have g2: "prefix (log w1 @ [GetOrder]) (log w2)"
    by simp
  have "profiles (snd (handle_payment_intent_succeeded e ev w)) = profiles w1 \<and>
        prefix (log w1 @ [GetOrder]) (log (snd (handle_payment_intent_succeeded e ev w)))"
  proof (cases r2)
    case (Inl x)
    with ps fo p2 g2 show ?thesis
      by (simp add: handle_payment_intent_succeeded_def Let_def)
  next
    case (Inr found)
    show ?thesis
    proof (cases found)
      case (Some ord)
      from send_frame [of e ord None w2]
      have "profiles (send_confirmation_email e ord None w2) = profiles w2"
        and "prefix (log w2) (log (send_confirmation_email e ord None w2))" by simp_all
      with p2 g2 have "profiles (send_confirmation_email e ord None w2) = profiles w1"
        and "prefix (log w1 @ [GetOrder]) (log (send_confirmation_email e ord None w2))"
        by (auto intro: prefix_order.trans)
      with ps fo Inr Some show ?thesis
        by (simp add: handle_payment_intent_succeeded_def Let_def)
    next
      case None
      obtain r3 w3 where cp: "create_path e ?l prof w2 = (r3, w3)"
        by (cases "create_path e ?l prof w2")
      from create_path_frame [of e ?l prof w2] cp
      have "profiles w3 = profiles w2" and "prefix (log w2) (log w3)" by simp_all
      with p2 g2 have p3: "profiles w3 = profiles w1"
        and g3: "prefix (log w1 @ [GetOrder]) (log w3)"
        by (auto intro: prefix_order.trans)
      show ?thesis
      proof (cases r3)
        case (Inl x)
        with ps fo Inr None cp p3 g3 show ?thesis
          by (simp add: handle_payment_intent_succeeded_def Let_def)
      next
        case (Inr ord)
        from send_frame [of e ord "l_email_to_send ?l" w3]
        have "profiles (send_confirmation_email e ord (l_email_to_send ?l) w3) = profiles w3"
          and "prefix (log w3) (log (send_confirmation_email e ord (l_email_to_send ?l) w3))"
          by simp_all
        with p3 g3
        have "profiles (send_confirmation_email e ord (l_email_to_send ?l) w3) = profiles w1"
          and "prefix (log w1 @ [GetOrder])
                 (log (send_confirmation_email e ord (l_email_to_send ?l) w3))"
          by (auto intro: prefix_order.trans)
        with ps fo \<open>r2 = Inr found\<close> None cp Inr show ?thesis
          by (simp add: handle_payment_intent_succeeded_def Let_def)
      qed
    qed
  qed
  with ps show "profiles (snd (handle_payment_intent_succeeded e ev w)) =
     profiles (snd (profile_step ?l w))"
    and "prefix (log (snd (profile_step ?l w)) @ [GetOrder])
     (log (snd (handle_payment_intent_succeeded e ev w)))"
    by simp_all
qed

subsection \<open>The example event\<close>

lemma ann_locals:
  "extract_locals (ann_event bag) =
     \<lparr> l_pid = Some ''pi_1'', l_bag = (if bag = [] then ''{}'' else bag), l_save_info = True,
       l_username = ''ann'', l_email_to_send = Some ''ann@mail.example'',
       l_billing_details = Some \<lparr> bd_email = Some ''ann@shop.example'' \<rparr>,
       l_grand_total = 4999, l_shipping_details = Some ann_shipping,
       l_address = [(''city'', Some ''Leeds''), (''country'', Some ''GB''),
                    (''line1'', Some ''1 Mill Rd''), (''line2'', None),
                    (''postal_code'', None), (''state'', None)] \<rparr>"
  by (simp add: extract_locals_def ann_event_def ann_shipping_def intent_address_def
      clean_address_def metadata_get_def save_info_of_def truthy_def or_empty_def py_or_def
      amount_or_zero_def Let_def)

lemma ann_matches: "bag \<noteq> [] \<Longrightarrow> matches (extract_locals (ann_event bag)) (ann_order bag)"
  by (simp add: ann_locals matches_def ann_order_def ship_name_def bill_email_def ship_phone_def
      addr_def address_get_def getattr_text_def or_empty_def ann_shipping_def iexact_def)

lemma ann_matches_upper:
  "bag \<noteq> [] \<Longrightarrow>
   matches (extract_locals (ann_event bag)) ((ann_order bag)\<lparr>o_id := 2, full_name := ''ANN LEE''\<rparr>)"
  by (simp add: ann_locals matches_def ann_order_def ship_name_def bill_email_def ship_phone_def
      addr_def address_get_def getattr_text_def or_empty_def ann_shipping_def iexact_def
      lower_char_def)

lemma ann_profile_step:
  "fst (profile_step (extract_locals (ann_event bag)) ann_world) = Some ''ann''"
  by (simp add: profile_step_def ann_locals ann_world_def empty_world_def)

lemma ann_created:
  "bag \<noteq> [] \<Longrightarrow> created_order (ann_event bag) ann_world = ann_order bag"
  unfolding created_order_def ann_profile_step
  by (simp add: new_order_def ann_locals ann_order_def
      ship_name_def bill_email_def ship_phone_def addr_def address_get_def getattr_text_def
      or_empty_def ann_shipping_def visible_def ann_world_def empty_world_def fresh_pk_def)

lemma ann_world_fields:
  "orders ann_world = []" "line_items ann_world = []" "incoming ann_world = []"
  "outbox ann_world = []" "log ann_world = []" "profiles ann_world ''ann'' = Some ann_profile"
  by (simp_all add: ann_world_def empty_world_def)

lemma unbilled_locals:
  "extract_locals unbilled_event =
     \<lparr> l_pid = Some ''pi_1'', l_bag = bag_plain, l_save_info = True,
       l_username = ''ann'', l_email_to_send = Some ''ann@mail.example'',
       l_billing_details = Some \<lparr> bd_email = None \<rparr>,
       l_grand_total = 4999, l_shipping_details = Some ann_shipping,
       l_address = [(''city'', Some ''Leeds''), (''country'', Some ''GB''),
                    (''line1'', Some ''1 Mill Rd''), (''line2'', None),
                    (''postal_code'', None), (''state'', None)] \<rparr>"
  by (simp add: extract_locals_def unbilled_event_def ann_shipping_def intent_address_def
      clean_address_def metadata_get_def save_info_of_def truthy_def or_empty_def py_or_def
      amount_or_zero_def Let_def bag_plain_def)

lemma unbilled_matches: "matches (extract_locals unbilled_event) unbilled_order"
  by (simp add: unbilled_locals matches_def unbilled_order_def ann_order_def ship_name_def
      bill_email_def ship_phone_def addr_def address_get_def getattr_text_def or_empty_def
      ann_shipping_def iexact_def)

lemma unbilled_profile_step:
  "fst (profile_step (extract_locals unbilled_event) ann_world) = Some ''ann''"
  by (simp add: profile_step_def unbilled_locals ann_world_def empty_world_def)

lemma unbilled_created: "created_order unbilled_event ann_world = unbilled_order"
  unfolding created_order_def unbilled_profile_step
  by (simp add: new_order_def unbilled_locals unbilled_order_def ann_order_def
      ship_name_def bill_email_def ship_phone_def addr_def address_get_def getattr_text_def
      or_empty_def ann_shipping_def visible_def ann_world_def empty_world_def fresh_pk_def)

section \<open>The claims\<close>

subsection \<open>C1: an order that is already stored\<close>

text \<open>
  C1, as amended. When the first of the five lookups that finds any matching order (the
  one after \<open>k\<close> sleeps) finds exactly one, the handler answers that the order is
  already in the database, and the orders are those that the other writers committed: it
  has created none, and no line item. \<open>visible w k\<close> is the order table after \<open>k\<close>
  sleeps.
\<close>

theorem C1_already_recorded:
  assumes "k < 5" and "misses ev w k"
    and "order_get (extract_locals ev) (visible w k) = Found ord"
  shows "fst (handle_payment_intent_succeeded e ev w) = Inr (already_in_database (ev_type ev)) \<and>
         orders (snd (handle_payment_intent_succeeded e ev w)) = visible w k \<and>
         line_items (snd (handle_payment_intent_succeeded e ev w)) = line_items w"
  using visible_profile_step [of "extract_locals ev" w k]
  by (simp add: handler_hit [OF assms] send_frame after_misses_fields profile_step_frame)

text \<open>The order arrives during the third sleep and is found by the fourth lookup.\<close>

theorem C1_witness:
  "misses (ann_event bag_plain) (ann_world \<lparr> incoming := [[], [], [ann_order bag_plain]] \<rparr>) 3 \<and>
   fst (handle_payment_intent_succeeded shop_env (ann_event bag_plain)
          (ann_world \<lparr> incoming := [[], [], [ann_order bag_plain]] \<rparr>)) =
     Inr (already_in_database ''payment_intent.succeeded'') \<and>
   orders (snd (handle_payment_intent_succeeded shop_env (ann_event bag_plain)
          (ann_world \<lparr> incoming := [[], [], [ann_order bag_plain]] \<rparr>))) = [ann_order bag_plain] \<and>
   line_items (snd (handle_payment_intent_succeeded shop_env (ann_event bag_plain)
          (ann_world \<lparr> incoming := [[], [], [ann_order bag_plain]] \<rparr>))) = []"
proof -
  let ?w = "ann_world \<lparr> incoming := [[], [], [ann_order bag_plain]] \<rparr>"
  have m: "matches (extract_locals (ann_event bag_plain)) (ann_order bag_plain)"
    by (rule ann_matches) (simp add: bag_plain_def)
  have k: "(3::nat) < 5" by simp
  have miss: "misses (ann_event bag_plain) ?w 3"
    by (simp add: misses_iff visible_def ann_world_def empty_world_def less_Suc_eq
        numeral_3_eq_3)
  have hit: "order_get (extract_locals (ann_event bag_plain)) (visible ?w 3) =
             Found (ann_order bag_plain)"
    using m by (simp add: order_get_def visible_def ann_world_def empty_world_def numeral_3_eq_3)
  from C1_already_recorded [OF k miss hit, of shop_env] miss
  show ?thesis
    by (simp add: visible_def ann_world_def empty_world_def ann_event_def numeral_3_eq_3)
qed

text \<open>
  C1 as stated fails when two stored orders match, here two that differ in the case of the
  name only: \<^verbatim>\<open>Order.objects.get\<close> raises \<^verbatim>\<open>MultipleObjectsReturned\<close>, which the
  loop does not catch, and the handler returns no response.
\<close>

theorem C1_counterexample:
  "matches (extract_locals (ann_event bag_plain)) (ann_order bag_plain) \<and>
   ann_order bag_plain \<in> set (orders (ann_world \<lparr> orders := [ann_order bag_plain,
       (ann_order bag_plain) \<lparr> o_id := 2, full_name := ''ANN LEE'' \<rparr>] \<rparr>)) \<and>
   fst (handle_payment_intent_succeeded shop_env (ann_event bag_plain)
         (ann_world \<lparr> orders := [ann_order bag_plain,
            (ann_order bag_plain) \<lparr> o_id := 2, full_name := ''ANN LEE'' \<rparr>] \<rparr>))
     = Inl MultipleObjectsReturned"
proof -
  let ?w = "ann_world \<lparr> orders := [ann_order bag_plain,
              (ann_order bag_plain) \<lparr> o_id := 2, full_name := ''ANN LEE'' \<rparr>] \<rparr>"
  have ne: "bag_plain \<noteq> []" by (simp add: bag_plain_def)
  have k: "(0::nat) < 5" by simp
  have miss: "misses (ann_event bag_plain) ?w 0"
    by (simp add: misses_def)
  have hit: "order_get (extract_locals (ann_event bag_plain)) (visible ?w 0) = MultipleFound"
    using ann_matches [OF ne] ann_matches_upper [OF ne] by (simp add: order_get_def visible_def)
  from handler_many [OF k miss hit, of shop_env] ann_matches [OF ne]
  show ?thesis by simp
qed

subsection \<open>C2: no stored order\<close>

text \<open>
  C2, as amended. When the five lookups find nothing (each of them, the fifth included, is
  followed by a sleep, so five batches of the other writers are in), and neither the
  creation of the order nor that of its line items raises, the handler answers that it
  created the order, and the table has exactly one more row, built from the event's
  normalised fields.
\<close>

theorem C2_created:
  assumes "misses ev w 5" and "creation_error e ev w = None"
  shows "fst (handle_payment_intent_succeeded e ev w) = Inr (created_in_webhook (ev_type ev)) \<and>
         orders (snd (handle_payment_intent_succeeded e ev w)) =
           visible w 5 @ [created_order ev w] \<and>
         created_order ev w =
           new_order (extract_locals ev) (fst (profile_step (extract_locals ev) w))
             (fresh_pk (visible w 5)) \<and>
         incoming (snd (handle_payment_intent_succeeded e ev w)) = drop 5 (incoming w)"
  by (simp add: handler_created [OF assms] created_order_def)

theorem C2_witness:
  "misses (ann_event bag_plain) ann_world 5 \<and>
   creation_error shop_env (ann_event bag_plain) ann_world = None \<and>
   fst (handle_payment_intent_succeeded shop_env (ann_event bag_plain) ann_world) =
     Inr (created_in_webhook ''payment_intent.succeeded'') \<and>
   orders (snd (handle_payment_intent_succeeded shop_env (ann_event bag_plain) ann_world)) =
     [ann_order bag_plain]"
proof -
  have miss: "misses (ann_event bag_plain) ann_world 5"
    by (simp add: misses_iff visible_def ann_world_def empty_world_def)
  have ok: "creation_error shop_env (ann_event bag_plain) ann_world = None"
    by (simp add: creation_error_def shop_env_def populate_def create_item_def
        lineitem_create_def ann_locals bag_plain_def)
  have row: "created_order (ann_event bag_plain) ann_world = ann_order bag_plain"
    by (simp add: ann_created bag_plain_def)
  from C2_created [OF miss ok] miss ok row
  show ?thesis
    by (simp add: visible_def ann_world_def empty_world_def ann_event_def)
qed

text \<open>
  C2 as stated fails when a step of the creation raises. Here the snapshot \<^verbatim>\<open>[]\<close> is
  valid JSON but no dictionary, \<^verbatim>\<open>bag_data.items()\<close> raises, the order is deleted again
  and the response is the error.
\<close>

theorem C2_counterexample:
  "misses (ann_event ''[]'') ann_world 5 \<and>
   fst (handle_payment_intent_succeeded shop_env (ann_event ''[]'') ann_world) =
     Inr (error_creating ''payment_intent.succeeded'' (AttributeError ''items'')) \<and>
   orders (snd (handle_payment_intent_succeeded shop_env (ann_event ''[]'') ann_world)) = []"
proof -
  have miss: "misses (ann_event ''[]'') ann_world 5"
    by (simp add: misses_iff visible_def ann_world_def empty_world_def)
  have ok: "order_create_error shop_env (created_order (ann_event ''[]'') ann_world) = None"
    by (simp add: shop_env_def)
  have bad: "fst (populate shop_env (extract_locals (ann_event ''[]''))
                    (fresh_pk (visible ann_world 5)) ann_world) = Some (AttributeError ''items'')"
    by (simp add: populate_def shop_env_def ann_locals bag_plain_def bag_sized_def
        bag_unknown_def)
  from handler_raised(1,2) [OF miss ok bad] miss
  show ?thesis
    by (simp add: visible_def ann_world_def empty_world_def ann_event_def)
qed

subsection \<open>C3: a failure after the order was stored\<close>

text \<open>
  C3. When the five lookups find nothing, the store accepts the order, and a later step
  of the creation (a line item, a product lookup other than a missing product, the shape
  of the snapshot) raises \<open>x\<close>, the response is the error with status 500, the order was
  created and then deleted, the deletion being the handler's last operation, and the
  table holds no row with the key of that order: it is as it was before the creation.
\<close>

theorem C3_creation_failed:
  assumes "misses ev w 5" and "order_create_error e (created_order ev w) = None"
    and "fst (populate e (extract_locals ev) (o_id (created_order ev w)) w) = Some x"
  shows "fst (handle_payment_intent_succeeded e ev w) = Inr (error_creating (ev_type ev) x) \<and>
         status (error_creating (ev_type ev) x) = 500 \<and>
         CreatedOrder (o_id (created_order ev w)) \<in>
           set (log (snd (handle_payment_intent_succeeded e ev w))) \<and>
         last (log (snd (handle_payment_intent_succeeded e ev w))) =
           DeletedOrder (o_id (created_order ev w)) \<and>
         orders (snd (handle_payment_intent_succeeded e ev w)) = visible w 5 \<and>
         (\<forall>ord \<in> set (orders (snd (handle_payment_intent_succeeded e ev w))).
            o_id ord \<noteq> o_id (created_order ev w))"
proof -
  have pk: "o_id (created_order ev w) = fresh_pk (visible w 5)"
    by (simp add: created_order_def new_order_id)
  from assms(3) have bad: "fst (populate e (extract_locals ev) (fresh_pk (visible w 5)) w) = Some x"
    by (simp add: pk)
  have "\<forall>ord \<in> set (visible w 5). o_id ord \<noteq> fresh_pk (visible w 5)"
    using fresh_pk_fresh by fastforce
  then show ?thesis
    by (simp add: handler_raised [OF assms(1,2) bad] pk error_creating_def)
qed

text \<open>The store of line items refuses every row.\<close>

theorem C3_witness:
  "misses (ann_event bag_plain) ann_world 5 \<and>
   fst (handle_payment_intent_succeeded
          (shop_env \<lparr> lineitem_create_error := \<lambda>li. Some (Raised ''IntegrityError'') \<rparr>)
          (ann_event bag_plain) ann_world) =
     Inr (error_creating ''payment_intent.succeeded'' (Raised ''IntegrityError'')) \<and>
   orders (snd (handle_payment_intent_succeeded
          (shop_env \<lparr> lineitem_create_error := \<lambda>li. Some (Raised ''IntegrityError'') \<rparr>)
          (ann_event bag_plain) ann_world)) = []"
proof -
  let ?e = "shop_env \<lparr> lineitem_create_error := \<lambda>li. Some (Raised ''IntegrityError'') \<rparr>"
  have miss: "misses (ann_event bag_plain) ann_world 5"
    by (simp add: misses_iff visible_def ann_world_def empty_world_def)
  have ok: "order_create_error ?e (created_order (ann_event bag_plain) ann_world) = None"
    by (simp add: shop_env_def)
  have bad: "fst (populate ?e (extract_locals (ann_event bag_plain))
                    (o_id (created_order (ann_event bag_plain) ann_world)) ann_world) =
             Some (Raised ''IntegrityError'')"
    by (simp add: populate_def shop_env_def ann_locals bag_plain_def create_item_def
        lineitem_create_def)
  from C3_creation_failed [OF miss ok bad] miss
  show ?thesis
    by (simp add: visible_def ann_world_def empty_world_def ann_event_def)
qed

subsection \<open>C4: the recipient of the confirmation\<close>

text \<open>
  C4 does not hold of the code. For the order that it creates the handler passes the
  address of the event's metadata to \<^verbatim>\<open>_send_confirmation_email\<close> (line 181); for the
  order that it finds it does not (line 123), so the order's email is followed directly
  by the email of the profile's user. The event below has no billing email, and its order
  an empty one: when the handler creates the order the confirmation goes to the address
  of the metadata, and when the same event comes again and the order is found, to the
  address of the account.
\<close>

theorem C4_override_not_passed_for_existing_order:
  "l_email_to_send (extract_locals unbilled_event) = Some ''ann@mail.example'' \<and>
   email unbilled_order = '''' \<and>
   fst (handle_payment_intent_succeeded shop_env unbilled_event ann_world) =
     Inr (created_in_webhook ''payment_intent.succeeded'') \<and>
   outbox (snd (handle_payment_intent_succeeded shop_env unbilled_event ann_world)) =
     [\<lparr> mail_to = ''ann@mail.example'', mail_order = unbilled_order \<rparr>] \<and>
   fst (handle_payment_intent_succeeded shop_env unbilled_event
          (ann_world \<lparr> orders := [unbilled_order] \<rparr>)) =
     Inr (already_in_database ''payment_intent.succeeded'') \<and>
   outbox (snd (handle_payment_intent_succeeded shop_env unbilled_event
          (ann_world \<lparr> orders := [unbilled_order] \<rparr>))) =
     [\<lparr> mail_to = ''ann@account.example'', mail_order = unbilled_order \<rparr>]"
proof -
  let ?l = "extract_locals unbilled_event"
  let ?w = "ann_world \<lparr> orders := [unbilled_order] \<rparr>"
  have ty: "ev_type unbilled_event = ''payment_intent.succeeded''"
    by (simp add: unbilled_event_def)
  have over: "l_email_to_send ?l = Some ''ann@mail.example''"
    by (simp add: unbilled_locals)
  have empty: "email unbilled_order = ''''" and prof: "user_profile unbilled_order = Some ''ann''"
    by (simp_all add: unbilled_order_def ann_order_def)
  have nomail: "mail_error shop_env ord to = None" for ord to
    by (simp add: shop_env_def)
  have miss: "misses unbilled_event ann_world 5"
    by (simp add: misses_iff visible_def ann_world_def empty_world_def)
  have ok: "creation_error shop_env unbilled_event ann_world = None"
    by (simp add: creation_error_def shop_env_def populate_def create_item_def
        lineitem_create_def unbilled_locals bag_plain_def)
  let ?w3 = "snd (create_path shop_env ?l (fst (profile_step ?l ann_world))
                    (after_misses 5 (snd (profile_step ?l ann_world))))"
  note created = handler_created_eq [OF miss ok]
  have box3: "outbox ?w3 = []"
    by (simp add: created(6) ann_world_fields)
  have to3: "cust_email ?w3 unbilled_order (Some ''ann@mail.example'') = Inr ''ann@mail.example''"
    by (simp add: cust_email_def empty truthy_def or_empty_def)
  have r1: "handle_payment_intent_succeeded shop_env unbilled_event ann_world =
      (Inr (created_in_webhook ''payment_intent.succeeded''),
       send_confirmation_email shop_env unbilled_order (Some ''ann@mail.example'') ?w3)"
    using created(1) by (simp add: ty over unbilled_created)
  have out1: "outbox (snd (handle_payment_intent_succeeded shop_env unbilled_event ann_world)) =
      [\<lparr> mail_to = ''ann@mail.example'', mail_order = unbilled_order \<rparr>]"
    by (simp add: r1 send_outbox [OF to3 nomail] box3)
  have k: "(0::nat) < 5" by simp
  have miss0: "misses unbilled_event ?w 0" by (simp add: misses_def)
  have hit: "order_get ?l (visible ?w 0) = Found unbilled_order"
    using unbilled_matches by (simp add: order_get_def visible_def)
  let ?w2 = "(after_misses 0 (snd (profile_step ?l ?w)))
               \<lparr>log := log (after_misses 0 (snd (profile_step ?l ?w))) @ [GetOrder]\<rparr>"
  have p2: "profiles (after_misses 0 (snd (profile_step ?l ?w))) ''ann'' =
      Some (update_profile ?l ann_profile)"
    by (simp add: after_misses_fields profile_step_def unbilled_locals ann_world_def
        empty_world_def)
  have box2: "outbox ?w2 = []"
    by (simp add: after_misses_fields profile_step_frame ann_world_fields)
  have to2: "cust_email ?w2 unbilled_order None = Inr ''ann@account.example''"
    by (simp add: cust_email_def empty prof truthy_def p2 update_profile_other ann_profile_def)
  have r2: "handle_payment_intent_succeeded shop_env unbilled_event ?w =
      (Inr (already_in_database ''payment_intent.succeeded''),
       send_confirmation_email shop_env unbilled_order None ?w2)"
    using handler_hit [OF k miss0 hit, of shop_env] by (simp add: ty)
  have out2: "outbox (snd (handle_payment_intent_succeeded shop_env unbilled_event ?w)) =
      [\<lparr> mail_to = ''ann@account.example'', mail_order = unbilled_order \<rparr>]"
    by (simp add: r2 send_outbox [OF to2 nomail] box2)
  from over empty r1 out1 r2 out2 show ?thesis
    by simp
qed

subsection \<open>C5: the profile is updated before the lookup\<close>

text \<open>
  C5. When the event names a user other than \<^verbatim>\<open>AnonymousUser\<close> whose profile exists,
  and carries the opt-in flag, the profile is saved with the event's values before the
  first lookup of the order, and whatever the handler then does or answers (the order
  found, created, the creation failed, or an exception that it does not catch), the
  profiles at the end are those of that save.
\<close>

theorem C5_profile_saved_first:
  assumes "l_username (extract_locals ev) \<noteq> ''AnonymousUser''"
    and "profiles w (l_username (extract_locals ev)) = Some p"
    and "l_save_info (extract_locals ev)"
  shows "profiles (snd (handle_payment_intent_succeeded e ev w)) =
           (profiles w)(l_username (extract_locals ev) \<mapsto> update_profile (extract_locals ev) p) \<and>
         (\<exists>rest. log (snd (handle_payment_intent_succeeded e ev w)) =
            log w @ SavedProfile (l_username (extract_locals ev)) # GetOrder # rest)"
proof -
  let ?l = "extract_locals ev"
  from assms have ps: "snd (profile_step ?l w) =
      w \<lparr> profiles := (profiles w)(l_username ?l \<mapsto> update_profile ?l p),
          log := log w @ [SavedProfile (l_username ?l)] \<rparr>"
    by (simp add: profile_step_def)
  from handler_frame(2) [of ev w e]
  obtain rest where "log (snd (handle_payment_intent_succeeded e ev w)) =
      (log (snd (profile_step ?l w)) @ [GetOrder]) @ rest"
    by (auto simp add: prefix_def)
  then have "log (snd (handle_payment_intent_succeeded e ev w)) =
      log w @ SavedProfile (l_username ?l) # GetOrder # rest"
    by (simp add: ps)
  then show ?thesis
    by (simp add: handler_frame(1) ps)
qed

text \<open>
  The profile of \<open>ann\<close> is saved both when her order is already there and when its
  creation fails.
\<close>

theorem C5_witness:
  "fst (handle_payment_intent_succeeded shop_env (ann_event bag_plain)
          (ann_world \<lparr> orders := [ann_order bag_plain] \<rparr>)) =
     Inr (already_in_database ''payment_intent.succeeded'') \<and>
   profiles (snd (handle_payment_intent_succeeded shop_env (ann_event bag_plain)
          (ann_world \<lparr> orders := [ann_order bag_plain] \<rparr>))) ''ann'' =
     Some (update_profile (extract_locals (ann_event bag_plain)) ann_profile) \<and>
   fst (handle_payment_intent_succeeded shop_env (ann_event ''[]'') ann_world) =
     Inr (error_creating ''payment_intent.succeeded'' (AttributeError ''items'')) \<and>
   profiles (snd (handle_payment_intent_succeeded shop_env (ann_event ''[]'') ann_world)) ''ann'' =
     Some (update_profile (extract_locals (ann_event ''[]'')) ann_profile) \<and>
   default_country (update_profile (extract_locals (ann_event bag_plain)) ann_profile) =
     Some ''GB''"
proof -
  let ?w = "ann_world \<lparr> orders := [ann_order bag_plain] \<rparr>"
  have ne: "bag_plain \<noteq> []" by (simp add: bag_plain_def)
  have u: "l_username (extract_locals (ann_event bag)) \<noteq> ''AnonymousUser''"
    and s: "l_save_info (extract_locals (ann_event bag))"
    and n: "l_username (extract_locals (ann_event bag)) = ''ann''" for bag
    by (simp_all add: ann_locals)
  have p1: "profiles ?w (l_username (extract_locals (ann_event bag_plain))) = Some ann_profile"
    and p2: "profiles ann_world (l_username (extract_locals (ann_event ''[]''))) = Some ann_profile"
    by (simp_all add: n ann_world_def empty_world_def)
  have k: "(0::nat) < 5" by simp
  have miss0: "misses (ann_event bag_plain) ?w 0" by (simp add: misses_def)
  have hit: "order_get (extract_locals (ann_event bag_plain)) (visible ?w 0) =
             Found (ann_order bag_plain)"
    using ann_matches [OF ne] by (simp add: order_get_def visible_def)
  have r1: "fst (handle_payment_intent_succeeded shop_env (ann_event bag_plain) ?w) =
     Inr (already_in_database ''payment_intent.succeeded'')"
    using handler_hit [OF k miss0 hit, of shop_env] by (simp add: ann_event_def)
  have miss: "misses (ann_event ''[]'') ann_world 5"
    by (simp add: misses_iff visible_def ann_world_def empty_world_def)
  have ok: "order_create_error shop_env (created_order (ann_event ''[]'') ann_world) = None"
    by (simp add: shop_env_def)
  have bad: "fst (populate shop_env (extract_locals (ann_event ''[]''))
                    (fresh_pk (visible ann_world 5)) ann_world) = Some (AttributeError ''items'')"
    by (simp add: populate_def shop_env_def ann_locals bag_plain_def bag_sized_def
        bag_unknown_def)
  have r2: "fst (handle_payment_intent_succeeded shop_env (ann_event ''[]'') ann_world) =
     Inr (error_creating ''payment_intent.succeeded'' (AttributeError ''items''))"
    using handler_raised(1) [OF miss ok bad] by (simp add: ann_event_def)
  have c: "default_country (update_profile (extract_locals (ann_event bag_plain)) ann_profile) =
     Some ''GB''"
    by (simp add: update_profile_def ann_locals address_get_def py_or_def truthy_def)
  from C5_profile_saved_first [OF u p1 s, of shop_env]
       C5_profile_saved_first [OF u p2 s, of shop_env] r1 r2 c
  show ?thesis by (simp add: n)
qed

subsection \<open>C6: a failing mailer\<close>

text \<open>
  C6. The result of the handler, and with it the orders, the line items and the profiles
  that it leaves, do not depend on whether the rendering and the sending of the
  confirmation succeed: with any two behaviours \<open>f\<close> and \<open>g\<close> of the mailer, one that
  always raises and one that never does among them, they are the same.
\<close>

theorem C6_mail_failure_is_swallowed:
  "fst (handle_payment_intent_succeeded (e\<lparr>mail_error := f\<rparr>) ev w) =
     fst (handle_payment_intent_succeeded (e\<lparr>mail_error := g\<rparr>) ev w) \<and>
   orders (snd (handle_payment_intent_succeeded (e\<lparr>mail_error := f\<rparr>) ev w)) =
     orders (snd (handle_payment_intent_succeeded (e\<lparr>mail_error := g\<rparr>) ev w)) \<and>
   line_items (snd (handle_payment_intent_succeeded (e\<lparr>mail_error := f\<rparr>) ev w)) =
     line_items (snd (handle_payment_intent_succeeded (e\<lparr>mail_error := g\<rparr>) ev w)) \<and>
   profiles (snd (handle_payment_intent_succeeded (e\<lparr>mail_error := f\<rparr>) ev w)) =
     profiles (snd (handle_payment_intent_succeeded (e\<lparr>mail_error := g\<rparr>) ev w))"
proof -
  let ?l = "extract_locals ev"
  obtain prof w1 where ps: "profile_step ?l w = (prof, w1)" by (cases "profile_step ?l w")
  obtain r2 w2 where fo: "find_order ?l 1 w1 = (r2, w2)" by (cases "find_order ?l 1 w1")
  obtain r3 w3 where cp: "create_path e ?l prof w2 = (r3, w3)"
    by (cases "create_path e ?l prof w2")
  show ?thesis
  proof (cases r2)
    case (Inl x)
    with ps fo show ?thesis
      by (simp add: handle_payment_intent_succeeded_def Let_def)
  next
    case (Inr found)
    show ?thesis
    proof (cases found)
      case (Some ord)
      with ps fo Inr show ?thesis
        by (simp add: handle_payment_intent_succeeded_def Let_def send_frame)
    next
      case None
      with ps fo Inr cp show ?thesis
        by (cases r3)
           (simp_all add: handle_payment_intent_succeeded_def Let_def create_path_mail
              send_frame)
    qed
  qed
qed

subsection \<open>C7: the line items of a snapshot\<close>

text \<open>
  C7. When the five lookups find nothing, the store accepts the order, the snapshot parses
  to a dictionary whose values are plain quantities or per-size mappings, every product is
  in the catalogue and the store accepts the line items, then the order is created and the
  line items added are, entry after entry, those that the specification asks for: one
  without size for a plain quantity, one for each pair of a size and a quantity for a
  mapping.
\<close>

theorem C7_line_items:
  assumes "misses ev w 5" and "order_create_error e (created_order ev w) = None"
    and "json_loads e (l_bag (extract_locals ev)) =
           Some (JObj (map (\<lambda>(k, en). (k, entry_json en)) entries))"
    and "\<forall>(k, en) \<in> set entries. product_get e k = Found (product k)"
    and "\<forall>(k, en) \<in> set entries.
           \<forall>li \<in> set (spec_line_items (o_id (created_order ev w)) (product k) en).
             lineitem_create_error e li = None"
  shows "fst (handle_payment_intent_succeeded e ev w) = Inr (created_in_webhook (ev_type ev)) \<and>
         line_items (snd (handle_payment_intent_succeeded e ev w)) =
           line_items w @
           concat (map (\<lambda>(k, en). spec_line_items (o_id (created_order ev w)) (product k) en)
                     entries)"
proof -
  let ?pk = "fresh_pk (visible w 5)"
  have pk: "o_id (created_order ev w) = ?pk"
    by (simp add: created_order_def new_order_id)
  from assms(3) have pop: "populate e (extract_locals ev) ?pk w =
      create_items e ?pk (map (\<lambda>(k, en). (k, entry_json en)) entries) w"
    by (simp add: populate_def)
  from assms(5) have acc: "\<forall>(k, en) \<in> set entries.
           \<forall>li \<in> set (spec_line_items ?pk (product k) en). lineitem_create_error e li = None"
    by (simp add: pk)
  note items = create_items_spec [OF assms(4) acc, of w]
  from items assms(2) have "creation_error e ev w = None"
    by (simp add: creation_error_def pop)
  from handler_created(1,4) [OF assms(1) this] items show ?thesis
    by (simp add: pop pk)
qed

text \<open>The two snapshots of the specification, for the product 12.\<close>

theorem C7_witness:
  "json_loads shop_env (l_bag (extract_locals (ann_event bag_plain))) =
     Some (JObj [(''12'', JInt 3)]) \<and>
   line_items (snd (handle_payment_intent_succeeded shop_env (ann_event bag_plain) ann_world)) =
     [\<lparr> li_order = 1, li_product = 12, li_quantity = JInt 3, li_product_size = None \<rparr>] \<and>
   json_loads shop_env (l_bag (extract_locals (ann_event bag_sized))) =
     Some (JObj [(''12'', JObj [(''items_by_size'', JObj [(''M'', JInt 2), (''L'', JInt 1)])])]) \<and>
   line_items (snd (handle_payment_intent_succeeded shop_env (ann_event bag_sized) ann_world)) =
     [\<lparr> li_order = 1, li_product = 12, li_quantity = JInt 2, li_product_size = Some ''M'' \<rparr>,
      \<lparr> li_order = 1, li_product = 12, li_quantity = JInt 1, li_product_size = Some ''L'' \<rparr>]"
proof -
  have miss: "misses (ann_event bag) ann_world 5" for bag
    by (simp add: misses_iff visible_def ann_world_def empty_world_def)
  have ok: "order_create_error shop_env (created_order (ann_event bag) ann_world) = None" for bag
    by (simp add: shop_env_def)
  have pk: "o_id (created_order (ann_event bag) ann_world) = 1" for bag
    by (simp add: created_order_def new_order_id visible_def ann_world_def empty_world_def
        fresh_pk_def)
  have j1: "json_loads shop_env (l_bag (extract_locals (ann_event bag_plain))) =
      Some (JObj (map (\<lambda>(k, en). (k, entry_json en)) [(''12'', Plain 3)]))"
    by (simp add: shop_env_def ann_locals bag_plain_def)
  have j2: "json_loads shop_env (l_bag (extract_locals (ann_event bag_sized))) =
      Some (JObj (map (\<lambda>(k, en). (k, entry_json en))
                    [(''12'', Sized [(''M'', JInt 2), (''L'', JInt 1)])]))"
    by (simp add: shop_env_def ann_locals bag_plain_def bag_sized_def)
  have f1: "\<forall>(k, en) \<in> set [(''12'', Plain 3)]. product_get shop_env k = Found ((\<lambda>k. 12) k)"
    and f2: "\<forall>(k, en) \<in> set [(''12'', Sized [(''M'', JInt 2), (''L'', JInt 1)])].
               product_get shop_env k = Found ((\<lambda>k. 12) k)"
    by (simp_all add: shop_env_def)
  have a1: "\<forall>(k, en) \<in> set [(''12'', Plain 3)].
      \<forall>li \<in> set (spec_line_items (o_id (created_order (ann_event bag_plain) ann_world))
                     ((\<lambda>k. 12) k) en). lineitem_create_error shop_env li = None"
    and a2: "\<forall>(k, en) \<in> set [(''12'', Sized [(''M'', JInt 2), (''L'', JInt 1)])].
      \<forall>li \<in> set (spec_line_items (o_id (created_order (ann_event bag_sized) ann_world))
                     ((\<lambda>k. 12) k) en). lineitem_create_error shop_env li = None"
    by (simp_all add: shop_env_def)
  from C7_line_items [OF miss ok j1 f1 a1] C7_line_items [OF miss ok j2 f2 a2] j1 j2
  show ?thesis
    by (simp add: pk ann_world_fields)
qed

subsection \<open>C8: what the profile update overwrites\<close>

text \<open>
  C8. Of a stored profile, the handler changes nothing but the seven default fields, and
  such a field only when the opt-in update is for this profile and the event carries a
  non-empty value for it, which is then the new value. In particular the stored postcode
  stays when the event's postcode is empty or missing.
\<close>

theorem C8_profile_update_frame:
  assumes "profiles w u = Some p"
  shows "\<exists>p'. profiles (snd (handle_payment_intent_succeeded e ev w)) u = Some p' \<and>
     user_email p' = user_email p \<and>
     default_phone_number p' =
       (if opt_in ev u \<and> truthy (supplied ev ''phone'') then supplied ev ''phone''
        else default_phone_number p) \<and>
     default_country p' =
       (if opt_in ev u \<and> truthy (supplied ev ''country'') then supplied ev ''country''
        else default_country p) \<and>
     default_postcode p' =
       (if opt_in ev u \<and> truthy (supplied ev ''postal_code'') then supplied ev ''postal_code''
        else default_postcode p) \<and>
     default_town_or_city p' =
       (if opt_in ev u \<and> truthy (supplied ev ''city'') then supplied ev ''city''
        else default_town_or_city p) \<and>
     default_street_address1 p' =
       (if opt_in ev u \<and> truthy (supplied ev ''line1'') then supplied ev ''line1''
        else default_street_address1 p) \<and>
     default_street_address2 p' =
       (if opt_in ev u \<and> truthy (supplied ev ''line2'') then supplied ev ''line2''
        else default_street_address2 p) \<and>
     default_county p' =
       (if opt_in ev u \<and> truthy (supplied ev ''state'') then supplied ev ''state''
        else default_county p) \<and>
     (\<not> truthy (supplied ev ''postal_code'') \<longrightarrow> default_postcode p' = default_postcode p)"
proof (cases "opt_in ev u")
  case True
  with assms have "profiles (snd (handle_payment_intent_succeeded e ev w)) u =
      Some (update_profile (extract_locals ev) p)"
    by (simp add: handler_frame(1) profile_step_profiles)
  with True show ?thesis
    by (simp add: update_profile_other update_profile_phone update_profile_address)
next
  case False
  with assms have "profiles (snd (handle_payment_intent_succeeded e ev w)) u = Some p"
    by (simp add: handler_frame(1) profile_step_profiles)
  with False show ?thesis
    by simp
qed

text \<open>
  The event of \<open>ann\<close> has an empty postcode and a country: her stored postcode stays, her
  country is overwritten.
\<close>

theorem C8_witness:
  "supplied (ann_event bag_plain) ''postal_code'' = Some '''' \<and>
   supplied (ann_event bag_plain) ''country'' = Some ''GB'' \<and>
   opt_in (ann_event bag_plain) ''ann'' \<and>
   (\<exists>p'. profiles (snd (handle_payment_intent_succeeded shop_env (ann_event bag_plain)
                          ann_world)) ''ann'' = Some p' \<and>
      user_email p' = ''ann@account.example'' \<and>
      default_postcode p' = Some ''LS1 1AA'' \<and>
      default_country p' = Some ''GB'' \<and>
      default_town_or_city p' = Some ''Leeds'' \<and>
      default_street_address2 p' = Some ''Flat 3'' \<and>
      default_county p' = Some ''Yorks'')"
proof -
  have p: "profiles ann_world ''ann'' = Some ann_profile"
    by (simp add: ann_world_def empty_world_def)
  have s: "supplied (ann_event bag_plain) ''postal_code'' = Some ''''"
    "supplied (ann_event bag_plain) ''country'' = Some ''GB''"
    "supplied (ann_event bag_plain) ''city'' = Some ''Leeds''"
    "supplied (ann_event bag_plain) ''line2'' = None"
    "supplied (ann_event bag_plain) ''state'' = Some ''''"
    by (simp_all add: supplied_def ann_event_def intent_address_def ann_shipping_def
        address_get_def)
  have o: "opt_in (ann_event bag_plain) ''ann''"
    by (simp add: opt_in_def ann_locals)
  from C8_profile_update_frame [OF p, of shop_env "ann_event bag_plain"]
  obtain p' where got:
    "profiles (snd (handle_payment_intent_succeeded shop_env (ann_event bag_plain) ann_world))
       ''ann'' = Some p'"
    "user_email p' = user_email ann_profile"
    "default_country p' =
       (if opt_in (ann_event bag_plain) ''ann'' \<and> truthy (supplied (ann_event bag_plain) ''country'')
        then supplied (ann_event bag_plain) ''country'' else default_country ann_profile)"
    "default_postcode p' =
       (if opt_in (ann_event bag_plain) ''ann'' \<and>
           truthy (supplied (ann_event bag_plain) ''postal_code'')
        then supplied (ann_event bag_plain) ''postal_code'' else default_postcode ann_profile)"
    "default_town_or_city p' =
       (if opt_in (ann_event bag_plain) ''ann'' \<and> truthy (supplied (ann_event bag_plain) ''city'')
        then supplied (ann_event bag_plain) ''city'' else default_town_or_city ann_profile)"
    "default_street_address2 p' =
       (if opt_in (ann_event bag_plain) ''ann'' \<and> truthy (supplied (ann_event bag_plain) ''line2'')
        then supplied (ann_event bag_plain) ''line2'' else default_street_address2 ann_profile)"
    "default_county p' =
       (if opt_in (ann_event bag_plain) ''ann'' \<and> truthy (supplied (ann_event bag_plain) ''state'')
        then supplied (ann_event bag_plain) ''state'' else default_county ann_profile)"
    by blast
  have "user_email p' = ''ann@account.example''"
    and "default_postcode p' = Some ''LS1 1AA''"
    and "default_country p' = Some ''GB''"
    and "default_town_or_city p' = Some ''Leeds''"
    and "default_street_address2 p' = Some ''Flat 3''"
    and "default_county p' = Some ''Yorks''"
    using got(2-7) by (simp_all add: s o truthy_def ann_profile_def)
  with got(1) s(1,2) o show ?thesis by blast
qed

subsection \<open>C9: a product that does not exist\<close>

text \<open>
  C9. When the five lookups find nothing, the store accepts the order, the snapshot parses
  to a dictionary, and the entries whose product exists are created without an exception,
  then the entries whose product does not exist change nothing: the order is created, the
  response says so, and the line items are those of the snapshot without these entries;
  none at all when no product of the snapshot exists.
\<close>

theorem C9_missing_product_skipped:
  assumes "misses ev w 5" and "order_create_error e (created_order ev w) = None"
    and "json_loads e (l_bag (extract_locals ev)) = Some (JObj items)"
    and "fst (create_items e (o_id (created_order ev w)) (skip_missing e items) w) = None"
  shows "fst (handle_payment_intent_succeeded e ev w) = Inr (created_in_webhook (ev_type ev)) \<and>
         orders (snd (handle_payment_intent_succeeded e ev w)) =
           visible w 5 @ [created_order ev w] \<and>
         line_items (snd (handle_payment_intent_succeeded e ev w)) =
           line_items (snd (create_items e (o_id (created_order ev w)) (skip_missing e items) w)) \<and>
         (skip_missing e items = [] \<longrightarrow>
            line_items (snd (handle_payment_intent_succeeded e ev w)) = line_items w)"
proof -
  let ?pk = "fresh_pk (visible w 5)"
  have pk: "o_id (created_order ev w) = ?pk"
    by (simp add: created_order_def new_order_id)
  from assms(3) have pop: "populate e (extract_locals ev) ?pk w = create_items e ?pk items w"
    by (simp add: populate_def)
  have "line_items w = line_items w" by simp
  note skip = create_items_skip [OF this, of e ?pk items]
  from skip assms(4) have none: "fst (create_items e ?pk items w) = None"
    by (simp add: pk)
  with assms(2) have "creation_error e ev w = None"
    by (simp add: creation_error_def pop)
  note h = handler_created(1,2,4) [OF assms(1) this]
  have li: "line_items (snd (handle_payment_intent_succeeded e ev w)) =
           line_items (snd (create_items e ?pk (skip_missing e items) w))"
    using h(3) skip by (simp add: pop)
  then have "skip_missing e items = [] \<longrightarrow>
            line_items (snd (handle_payment_intent_succeeded e ev w)) = line_items w"
    by simp
  with h(1,2) li show ?thesis
    by (simp add: pk)
qed

text \<open>The snapshot names the product 99, which is not in the catalogue.\<close>

theorem C9_witness:
  "json_loads shop_env (l_bag (extract_locals (ann_event bag_unknown))) =
     Some (JObj [(''99'', JInt 1)]) \<and>
   product_get shop_env ''99'' = DoesNotExist \<and>
   fst (handle_payment_intent_succeeded shop_env (ann_event bag_unknown) ann_world) =
     Inr (created_in_webhook ''payment_intent.succeeded'') \<and>
   orders (snd (handle_payment_intent_succeeded shop_env (ann_event bag_unknown) ann_world)) =
     [ann_order bag_unknown] \<and>
   line_items (snd (handle_payment_intent_succeeded shop_env (ann_event bag_unknown) ann_world)) =
     []"
proof -
  have miss: "misses (ann_event bag_unknown) ann_world 5"
    by (simp add: misses_iff visible_def ann_world_def empty_world_def)
  have ok: "order_create_error shop_env (created_order (ann_event bag_unknown) ann_world) = None"
    by (simp add: shop_env_def)
  have j: "json_loads shop_env (l_bag (extract_locals (ann_event bag_unknown))) =
      Some (JObj [(''99'', JInt 1)])"
    by (simp add: shop_env_def ann_locals bag_plain_def bag_sized_def bag_unknown_def)
  have p: "product_get shop_env ''99'' = DoesNotExist"
    by (simp add: shop_env_def)
  have s: "skip_missing shop_env [(''99'', JInt 1)] = []"
    by (simp add: skip_missing_def p)
  have c: "fst (create_items shop_env (o_id (created_order (ann_event bag_unknown) ann_world))
                  (skip_missing shop_env [(''99'', JInt 1)]) ann_world) = None"
    by (simp add: s)
  have row: "created_order (ann_event bag_unknown) ann_world = ann_order bag_unknown"
    by (simp add: ann_created bag_unknown_def)
  from C9_missing_product_skipped [OF miss ok j c] j p s row
  show ?thesis
    by (simp add: visible_def ann_world_def empty_world_def ann_event_def)
qed

subsection \<open>C10: a snapshot that is not JSON\<close>

text \<open>
  C10. When the five lookups find nothing, the store accepts the order, and the snapshot
  does not parse, the snapshot counts as empty: the response is that the order was
  created, the order is in the table, and no line item was added.
\<close>

theorem C10_unparsable_bag:
  assumes "misses ev w 5" and "order_create_error e (created_order ev w) = None"
    and "json_loads e (l_bag (extract_locals ev)) = None"
  shows "fst (handle_payment_intent_succeeded e ev w) = Inr (created_in_webhook (ev_type ev)) \<and>
         orders (snd (handle_payment_intent_succeeded e ev w)) =
           visible w 5 @ [created_order ev w] \<and>
         line_items (snd (handle_payment_intent_succeeded e ev w)) = line_items w"
proof -
  from assms(3) have pop: "populate e (extract_locals ev) (fresh_pk (visible w 5)) w = (None, w)"
    by (simp add: populate_def)
  with assms(2) have "creation_error e ev w = None"
    by (simp add: creation_error_def)
  from handler_created [OF assms(1) this] pop show ?thesis
    by simp
qed

theorem C10_witness:
  "misses (ann_event ''{oops'') ann_world 5 \<and>
   json_loads shop_env (l_bag (extract_locals (ann_event ''{oops''))) = None \<and>
   fst (handle_payment_intent_succeeded shop_env (ann_event ''{oops'') ann_world) =
     Inr (created_in_webhook ''payment_intent.succeeded'') \<and>
   orders (snd (handle_payment_intent_succeeded shop_env (ann_event ''{oops'') ann_world)) =
     [ann_order ''{oops''] \<and>
   line_items (snd (handle_payment_intent_succeeded shop_env (ann_event ''{oops'') ann_world)) = []"
proof -
  have miss: "misses (ann_event ''{oops'') ann_world 5"
    by (simp add: misses_iff visible_def ann_world_def empty_world_def)
  have ok: "order_create_error shop_env (created_order (ann_event ''{oops'') ann_world) = None"
    by (simp add: shop_env_def)
  have bad: "json_loads shop_env (l_bag (extract_locals (ann_event ''{oops''))) = None"
    by (simp add: shop_env_def ann_locals bag_plain_def bag_sized_def bag_unknown_def)
  have row: "created_order (ann_event ''{oops'') ann_world = ann_order ''{oops''"
    by (simp add: ann_created)
  from C10_unparsable_bag [OF miss ok bad] miss bad row
  show ?thesis
    by (simp add: visible_def ann_world_def empty_world_def ann_event_def)
qed

end
